theory Spec2Isabelle
  imports Complex_Main "HOL-Library.AList"
begin

section \<open>Python values\<close>

text \<open>
  The values that travel between the spreadsheet, the MCP server and the agent are
  scalars: \<open>None\<close>, booleans, integers, floats, strings and timestamps. A finite
  float is modelled by the rational number it denotes; \<open>PNaN\<close> stands for pandas'
  missing-value markers (\<open>NaN\<close>, \<open>NaT\<close>), the values on which \<open>pd.isna\<close> is true
  besides \<open>None\<close>. A timestamp is an abstract integer (a point in time).
\<close>

datatype pyval =
    PNone
  | PBool bool
  | PInt int
  | PFloat rat
  | PNaN
  | PStr string
  | PDatetime int

text \<open>
  Library functions that the program calls and that are not part of it: the rendering
  of floats and timestamps as text, the date parser of pandas, Python's \<open>float()\<close>
  on a string and \<open>json.loads\<close>. They are parameters of the model. \<open>to_datetime\<close>
  returns the day number of the parsed date, or \<open>None\<close> where \<open>pd.to_datetime(s).date()\<close>
  raises or gives no usable date.
\<close>

datatype decision = Dict "string \<rightharpoonup> pyval" | NotDict

record pylib =
  float_str :: "rat \<Rightarrow> string"
  datetime_str :: "int \<Rightarrow> string"
  isoformat :: "int \<Rightarrow> string"
  to_datetime :: "string \<Rightarrow> int option"
  float_of_str :: "string \<Rightarrow> rat option"
  json_loads :: "string \<Rightarrow> decision option"

text \<open>Truthiness: what \<open>if v:\<close> and \<open>not v\<close> test.\<close>

fun truthy :: "pyval \<Rightarrow> bool" where
  "truthy PNone = False"
| "truthy (PBool b) = b"
| "truthy (PInt i) = (i \<noteq> 0)"
| "truthy (PFloat r) = (r \<noteq> 0)"
| "truthy PNaN = True"
| "truthy (PStr s) = (s \<noteq> [])"
| "truthy (PDatetime t) = True"

fun isna :: "pyval \<Rightarrow> bool" where
  "isna PNone = True"
| "isna PNaN = True"
| "isna v = False"

text \<open>Decimal rendering of integers, for \<open>str\<close>.\<close>

fun string_of_nat :: "nat \<Rightarrow> string" where
  "string_of_nat n =
     (if n < 10 then [''0123456789'' ! n]
      else string_of_nat (n div 10) @ [''0123456789'' ! (n mod 10)])"

declare string_of_nat.simps [simp del]

definition string_of_int :: "int \<Rightarrow> string" where
  "string_of_int i = (if i < 0 then CHR ''-'' # string_of_nat (nat (- i)) else string_of_nat (nat i))"

fun py_str :: "pylib \<Rightarrow> pyval \<Rightarrow> string" where
  "py_str lib PNone = ''None''"
| "py_str lib (PBool b) = (if b then ''True'' else ''False'')"
| "py_str lib (PInt i) = string_of_int i"
| "py_str lib (PFloat r) = float_str lib r"
| "py_str lib PNaN = ''nan''"
| "py_str lib (PStr s) = s"
| "py_str lib (PDatetime t) = datetime_str lib t"

text \<open>
  \<open>str.strip()\<close> removes leading and trailing whitespace. A character is a code
  point below 256 here; those on which \<open>str.isspace\<close> holds are tab, line feed,
  vertical tab, form feed, carriage return, the four separators \<open>0x1C\<close> to
  \<open>0x1F\<close>, the space, next line (\<open>0x85\<close>) and the no-break space
  (\<open>0xA0\<close>). The whitespace of Unicode above 255 is outside the model; no
  statement below depends on which characters are whitespace.
\<close>

definition is_space :: "char \<Rightarrow> bool" where
  "is_space c = (c \<in> set [CHR 0x09, CHR 0x0A, CHR 0x0B, CHR 0x0C, CHR 0x0D,
                            CHR 0x1C, CHR 0x1D, CHR 0x1E, CHR 0x1F, CHR 0x20,
                            CHR 0x85, CHR 0xA0])"

definition strip :: "string \<Rightarrow> string" where
  "strip s = rev (dropWhile is_space (rev (dropWhile is_space s)))"

text \<open>A dictionary lookup \<open>d.get(k)\<close> and \<open>d.get(k, default)\<close>.\<close>

definition dict_get :: "(string \<rightharpoonup> pyval) \<Rightarrow> string \<Rightarrow> pyval \<Rightarrow> pyval" where
  "dict_get d k dflt = (case d k of None \<Rightarrow> dflt | Some v \<Rightarrow> v)"

section \<open>The derived field: experience from the date of joining\<close>

text \<open>
  \<open>round(x, 1)\<close>: the nearest multiple of one tenth. (On a tie Python and \<open>round\<close>
  of HOL may differ; \<open>days / 365.25\<close> is never a tie, see \<open>experience_never_tie\<close>.)
\<close>

definition py_round1 :: "rat \<Rightarrow> rat" where
  "py_round1 x = of_int (round (x * 10)) / 10"

text \<open>
  Lines 204 to 232 of \<open>run_agent\<close>. The value arrives as JSON, so it is never a
  date object: only the string branch can produce a date; every other truthy value
  leaves \<open>doj_date\<close> at \<open>None\<close>. An exception of the parser is caught and logged.
\<close>

definition parse_doj :: "pylib \<Rightarrow> pyval \<Rightarrow> int option" where
  "parse_doj lib doj = (case doj of PStr s \<Rightarrow> to_datetime lib s | _ \<Rightarrow> None)"

definition calculated_experience :: "pylib \<Rightarrow> int \<Rightarrow> pyval \<Rightarrow> rat option" where
  "calculated_experience lib today doj =
     (if truthy doj then
        (case parse_doj lib doj of
           Some doj_date \<Rightarrow> Some (py_round1 (of_int (today - doj_date) / 365.25))
         | None \<Rightarrow> None)
      else None)"


section \<open>The reconciliation of one row (agent side)\<close>

type_synonym row = "string \<rightharpoonup> pyval"
type_synonym updates = "(string \<times> pyval) list"

text \<open>
  The update set is a Python dict, built by assignments \<open>updates[k] = v\<close>: an
  association list in insertion order, where assigning to a present key replaces its
  value in place (\<open>AList.update\<close>).

  Lines 199 to 229: the update set starts empty; a computed experience is always
  staged and always marks the row for writing.
\<close>

definition stage_experience :: "pylib \<Rightarrow> int \<Rightarrow> row \<Rightarrow> updates \<times> bool" where
  "stage_experience lib today data =
     (case calculated_experience lib today (dict_get data ''DOJ'' PNone) of
        Some e \<Rightarrow> (AList.update ''Experience_Years'' (PFloat e) [], True)
      | None \<Rightarrow> ([], False))"

text \<open>Lines 234 to 238: the row handed to the oracle carries the experience in use.\<close>

definition data_for_decision :: "pylib \<Rightarrow> int \<Rightarrow> row \<Rightarrow> row" where
  "data_for_decision lib today data =
     (let current_experience = dict_get data ''Experience_Years'' PNone;
          experience_for_decision =
            (case calculated_experience lib today (dict_get data ''DOJ'' PNone) of
               Some e \<Rightarrow> PFloat e
             | None \<Rightarrow> current_experience)
      in if experience_for_decision \<noteq> PNone
         then data(''Experience_Years'' \<mapsto> experience_for_decision)
         else data)"

text \<open>Lines 244 to 246: \<open>str(decision.get(key, "")).strip()\<close>.\<close>

definition decision_value :: "pylib \<Rightarrow> (string \<rightharpoonup> pyval) \<Rightarrow> string \<Rightarrow> string" where
  "decision_value lib d key = strip (py_str lib (dict_get d key (PStr [])))"

text \<open>
  Lines 249 to 280 repeat one block for Department, Designation and Salary_Band;
  \<open>merge_field\<close> is that block, with the column name and the decision's value as
  arguments. \<open>is_blank\<close> is the test of its first branch on the current value.
\<close>

definition is_blank :: "pylib \<Rightarrow> pyval \<Rightarrow> bool" where
  "is_blank lib current = (\<not> truthy current \<or> isna current \<or> strip (py_str lib current) = [])"

definition merge_field :: "pylib \<Rightarrow> row \<Rightarrow> string \<Rightarrow> string \<Rightarrow> updates \<times> bool \<Rightarrow> updates \<times> bool" where
  "merge_field lib data key dec st =
     (let current = dict_get data key PNone in
      if is_blank lib current \<and> dec \<noteq> [] then (AList.update key (PStr dec) (fst st), True)
      else if truthy current \<and> dec \<noteq> [] \<and> strip (py_str lib current) \<noteq> strip dec
      then (AList.update key (PStr dec) (fst st), True)
      else st)"

definition reconcile :: "pylib \<Rightarrow> row \<Rightarrow> (string \<rightharpoonup> pyval) \<Rightarrow> updates \<times> bool \<Rightarrow> updates \<times> bool" where
  "reconcile lib data d st =
     (let dept = decision_value lib d ''Department'';
          designation = decision_value lib d ''Designation'';
          salary_band = decision_value lib d ''Salary_Band''
      in merge_field lib data ''Salary_Band'' salary_band
           (merge_field lib data ''Designation'' designation
              (merge_field lib data ''Department'' dept st)))"

text \<open>
  The whole staging of a row, given the oracle's decision: experience first, then the
  three classification fields, read from the row that carries the working experience.
  (The scan of lines 282 to 296 only logs and stages nothing.)
\<close>

definition stage :: "pylib \<Rightarrow> int \<Rightarrow> row \<Rightarrow> (string \<rightharpoonup> pyval) \<Rightarrow> updates \<times> bool" where
  "stage lib today data d =
     reconcile lib (data_for_decision lib today data) d (stage_experience lib today data)"

section \<open>The record store (server side)\<close>

datatype message = Invalid_row_id int | Invalid_value pyval string

datatype error =
    FileError
  | ValueError message
  | IOError
  | APIError
  | JSONDecodeError
  | AttributeError
  | TypeError
  | OverflowError
  | ConnectionError

text \<open>
  A DataFrame: the ordered column names and, for each position, the row as a mapping
  from column name to cell. Cells hold their values independently: the coercions pandas
  applies to a whole column when a value of another type is assigned are not modelled.
  The spreadsheet file is \<open>dataframe option\<close>: \<open>None\<close> is a file that
  \<open>pd.read_excel\<close> cannot read.
\<close>

record dataframe =
  columns :: "string list"
  rows :: "row list"

definition DROPDOWNS :: "(string \<times> string list) list" where
  "DROPDOWNS =
     [(''Department'', [''Web'', ''AI'', ''HR'', ''Finance'', ''Operations'']),
      (''Designation'', [''Intern'', ''Junior'', ''Senior'', ''Lead'']),
      (''Salary_Band'', [''L1'', ''L2'', ''L3'']),
      (''Skill_Level'', [''Beginner'', ''Intermediate'', ''Expert'']),
      (''Promotion_Eligibility'', [''Yes'', ''No'']),
      (''Is_Processed'', [''Yes'', ''No''])]"

fun convert_to_json_serializable :: "pylib \<Rightarrow> pyval \<Rightarrow> pyval" where
  "convert_to_json_serializable lib PNone = PNone"
| "convert_to_json_serializable lib PNaN = PNone"
| "convert_to_json_serializable lib (PDatetime t) = PStr (isoformat lib t)"
| "convert_to_json_serializable lib v = v"

text \<open>
  \<open>get_all_employees\<close> hands out every row with its position. (For a sheet whose
  columns are all numeric, \<open>df.iterrows()\<close> of pandas delivers the integers of a row as
  floats; that coercion is not modelled, like the other coercions of pandas.)
\<close>

record employee =
  row_id :: nat
  emp_data :: row

definition get_all_employees :: "pylib \<Rightarrow> dataframe option \<Rightarrow> error + employee list" where
  "get_all_employees lib file =
     (case file of
        None \<Rightarrow> Inl FileError
      | Some df \<Rightarrow>
          Inr (map (\<lambda>(idx, r). \<lparr>row_id = idx, emp_data = map_option (convert_to_json_serializable lib) \<circ> r\<rparr>)
                 (enumerate 0 (rows df))))"

text \<open>\<open>df[c] = v\<close> for a column that is absent: the column is added to every row.\<close>

definition ensure_column :: "string \<Rightarrow> pyval \<Rightarrow> dataframe \<Rightarrow> dataframe" where
  "ensure_column c v df =
     (if c \<in> set (columns df) then df
      else df\<lparr>columns := columns df @ [c], rows := map (\<lambda>r. r(c \<mapsto> v)) (rows df)\<rparr>)"

text \<open>\<open>df.iloc[i, df.columns.get_loc(c)] = v\<close>, for a position and a column that exist.\<close>

definition set_cell :: "nat \<Rightarrow> string \<Rightarrow> pyval \<Rightarrow> dataframe \<Rightarrow> dataframe" where
  "set_cell i c v df = df\<lparr>rows := (rows df)[i := (rows df ! i)(c \<mapsto> v)]\<rparr>"

text \<open>\<open>val in DROPDOWNS[col]\<close>: equality with one of the strings.\<close>

fun py_in :: "pyval \<Rightarrow> string list \<Rightarrow> bool" where
  "py_in (PStr s) allowed = (s \<in> set allowed)"
| "py_in v allowed = False"

text \<open>Lines 174 to 180: the first offending pair raises.\<close>

fun validate :: "pylib \<Rightarrow> updates \<Rightarrow> error option" where
  "validate lib [] = None"
| "validate lib ((col, val) # us) =
     (case map_of DROPDOWNS col of
        Some allowed \<Rightarrow>
          if truthy val \<and> strip (py_str lib val) \<noteq> [] \<and> \<not> py_in val allowed
          then Some (ValueError (Invalid_value val col))
          else validate lib us
      | None \<Rightarrow> validate lib us)"

text \<open>Lines 184 to 189: only truthy values are written, and only to columns that exist.\<close>

fun apply_updates :: "nat \<Rightarrow> updates \<Rightarrow> dataframe \<Rightarrow> dataframe" where
  "apply_updates i [] df = df"
| "apply_updates i ((col, val) # us) df =
     apply_updates i us (if truthy val \<and> col \<in> set (columns df) then set_cell i col val df else df)"

definition ensure_required_columns :: "dataframe \<Rightarrow> dataframe" where
  "ensure_required_columns df =
     ensure_column ''Rule_Applied'' PNone
       (ensure_column ''Processing_Version'' PNone
          (ensure_column ''Last_Processed_On'' PNone
             (ensure_column ''Confidence_Score'' (PFloat 0)
                (ensure_column ''AI_Decision_Reason'' (PStr [])
                   (ensure_column ''Is_Processed'' (PStr ''No'') df)))))"

definition set_audit :: "nat \<Rightarrow> string \<Rightarrow> pyval \<Rightarrow> int \<Rightarrow> dataframe \<Rightarrow> dataframe" where
  "set_audit i reason confidence now df =
     set_cell i ''Last_Processed_On'' (PDatetime now)
       (set_cell i ''Confidence_Score'' confidence
          (set_cell i ''AI_Decision_Reason'' (PStr reason)
             (set_cell i ''Is_Processed'' (PStr ''Yes'') df)))"

text \<open>
  \<open>update_employee_row\<close> returns its result and the file as it is afterwards. The
  DataFrame is changed in memory and reaches the file only through \<open>to_excel\<close>;
  \<open>save_ok\<close> tells whether that call succeeds, and a failed save is taken to leave
  the file as it was. The backup copies the file and never raises; the dropdown
  metadata that \<open>_reapply_data_validation\<close> restores is no cell value.
\<close>

definition update_employee_row ::
  "pylib \<Rightarrow> bool \<Rightarrow> int \<Rightarrow> dataframe option \<Rightarrow> int \<Rightarrow> updates \<Rightarrow> string \<Rightarrow> pyval
     \<Rightarrow> (error + int \<times> updates) \<times> dataframe option" where
  "update_employee_row lib save_ok now file rid upd reason confidence =
     (case file of
        None \<Rightarrow> (Inl FileError, file)
      | Some df \<Rightarrow>
          if rid < 0 \<or> rid \<ge> int (length (rows df)) then (Inl (ValueError (Invalid_row_id rid)), file)
          else
            (case validate lib upd of
               Some err \<Rightarrow> (Inl err, file)
             | None \<Rightarrow>
                 if save_ok
                 then (Inr (rid, upd),
                       Some (set_audit (nat rid) reason confidence now
                               (apply_updates (nat rid) upd (ensure_required_columns df))))
                 else (Inl IOError, file)))"


section \<open>The decision oracle client\<close>

text \<open>
  One call of the chat API either raises (\<open>ApiError\<close>: transport failure, or a
  response without text) or delivers the text of the answer. The oracle is a parameter:
  its answer to the \<open>n\<close>-th call of the run, for the row in the prompt.
\<close>

datatype api_result = ApiError | ApiContent string

text \<open>Lines 101 to 111: the fence of a Markdown code block is removed.\<close>

definition fence :: string where
  "fence = [CHR 0x60, CHR 0x60, CHR 0x60]"

definition strip_fences :: "string \<Rightarrow> string" where
  "strip_fences content0 =
     (let c1 = strip content0;
          c2 = (if take 7 c1 = fence @ ''json'' then drop 7 c1
                else if take 3 c1 = fence then drop 3 c1
                else c1);
          c3 = (if 3 \<le> length c2 \<and> drop (length c2 - 3) c2 = fence then take (length c2 - 3) c2 else c2)
      in strip c3)"

text \<open>
  \<open>llm_decide\<close> threads the number of API calls made so far and the seconds slept.
  The source nests two handlers: the inner one (\<open>except json.JSONDecodeError\<close>)
  stands inside the outer \<open>try\<close>, so an exception that leaves the inner handler
  (its own \<open>raise\<close>, or the failure of the recursive call it makes) is caught by
  the outer \<open>except Exception\<close> of the same frame, which tests
  \<open>retry_count < max_retries\<close> again and retries again.
\<close>

function llm_decide ::
  "pylib \<Rightarrow> (nat \<Rightarrow> row \<Rightarrow> api_result) \<Rightarrow> nat \<Rightarrow> nat \<Rightarrow> row \<Rightarrow> nat \<Rightarrow> nat \<times> nat
     \<Rightarrow> (error + decision) \<times> nat \<times> nat" where
  "llm_decide lib oracle max_retries retry_delay employee_row retry_count (n, z) =
     (case oracle n employee_row of
        ApiError \<Rightarrow>
          if retry_count < max_retries
          then llm_decide lib oracle max_retries retry_delay employee_row (retry_count + 1)
                 (n + 1, z + retry_delay)
          else (Inl APIError, (n + 1, z))
      | ApiContent content \<Rightarrow>
          (case json_loads lib (strip_fences content) of
             Some decision \<Rightarrow> (Inr decision, (n + 1, z))
           | None \<Rightarrow>
               if retry_count < max_retries
               then
                 (case llm_decide lib oracle max_retries retry_delay employee_row (retry_count + 1)
                         (n + 1, z + retry_delay) of
                    (Inr decision, nz) \<Rightarrow> (Inr decision, nz)
                  | (Inl err, nz) \<Rightarrow>
                      llm_decide lib oracle max_retries retry_delay employee_row (retry_count + 1)
                        (fst nz, snd nz + retry_delay))
               else (Inl JSONDecodeError, (n + 1, z))))"
  by pat_completeness auto
termination
  by (relation "measure (\<lambda>(lib, oracle, max_retries, retry_delay, employee_row, retry_count, nz).
                   max_retries - retry_count)") auto

declare llm_decide.simps [simp del]


section \<open>The run orchestrator\<close>

text \<open>
  The environment of a run: the library, today's date and the current time, the
  oracle, the retry configuration, whether the MCP session can be set up and the fetch
  tool be called at all, and whether saving the spreadsheet succeeds when a given row
  is written.
\<close>

record env =
  e_lib :: pylib
  e_today :: int
  e_now :: int
  e_oracle :: "nat \<Rightarrow> row \<Rightarrow> api_result"
  e_max_retries :: nat
  e_retry_delay :: nat
  e_session_ok :: bool
  e_save_ok :: "nat \<Rightarrow> bool"

datatype event =
    Fetch_error
  | No_employees
  | Row_failed nat
  | Row_skipped nat
  | Row_updated nat
  | Fatal error
  | Summary nat nat nat nat

record agent_state =
  xlsx :: "dataframe option"
  api_calls :: nat
  slept :: nat
  total :: nat
  success :: nat
  failed :: nat
  skipped :: nat
  log :: "event list"

text \<open>
  \<open>float(x)\<close> of line 311; the result is a float, possibly NaN. An integer too
  large for a double raises \<open>OverflowError\<close> (the bound is the midpoint between the
  largest double and \<open>2 ^ 1024\<close>); the rounding of other large integers to a double
  is not modelled. \<open>float_of_str\<close> is \<open>None\<close> where \<open>float(s)\<close> raises and
  also where it gives NaN or an infinity, which the tool call refuses: either way the
  row is counted as failed.
\<close>

fun py_float :: "pylib \<Rightarrow> pyval \<Rightarrow> error + pyval" where
  "py_float lib PNone = Inl TypeError"
| "py_float lib (PBool b) = Inr (PFloat (if b then 1 else 0))"
| "py_float lib (PInt i) =
     (if \<bar>i\<bar> \<ge> 2 ^ 1024 - 2 ^ 970 then Inl OverflowError else Inr (PFloat (of_int i)))"
| "py_float lib (PFloat r) = Inr (PFloat r)"
| "py_float lib PNaN = Inr PNaN"
| "py_float lib (PStr s) =
     (case float_of_str lib s of None \<Rightarrow> Inl (ValueError (Invalid_value (PStr s) ''float'')) | Some r \<Rightarrow> Inr (PFloat r))"
| "py_float lib (PDatetime t) = Inl TypeError"

definition row_failed :: "agent_state \<Rightarrow> nat \<Rightarrow> agent_state" where
  "row_failed s rid = s\<lparr>failed := failed s + 1, log := log s @ [Row_failed rid]\<rparr>"

text \<open>
  Lines 304 to 319: the call of the tool \<open>apply_employee_update\<close>. An exception
  raised by the tool on the server comes back as a result with \<open>isError\<close> set, which
  counts the row as failed; the arguments are computed before the call, and an
  exception there is caught by the handler of the row, with the same count. The
  tool call validates its arguments and refuses a confidence that is NaN, before the
  tool runs: that row is counted as failed too.
\<close>

definition write_row :: "env \<Rightarrow> agent_state \<Rightarrow> nat \<Rightarrow> updates \<Rightarrow> (string \<rightharpoonup> pyval) \<Rightarrow> agent_state" where
  "write_row e s rid upd d =
     (case py_float (e_lib e) (dict_get d ''Confidence'' (PFloat 0)) of
        Inl err \<Rightarrow> row_failed s rid
      | Inr confidence \<Rightarrow>
          if confidence = PNaN then row_failed s rid
          else
            (case update_employee_row (e_lib e) (e_save_ok e rid) (e_now e) (xlsx s) (int rid) upd
                    (py_str (e_lib e) (dict_get d ''Reason'' (PStr []))) confidence of
               (Inl err, file) \<Rightarrow> row_failed (s\<lparr>xlsx := file\<rparr>) rid
             | (Inr res, file) \<Rightarrow>
                 s\<lparr>xlsx := file, success := success s + 1, log := log s @ [Row_updated rid]\<rparr>))"

text \<open>
  Lines 192 to 323: the body of the loop with its handler. Every exception (of the
  oracle client, of \<open>decision.get\<close> on a decision that is no dict, of the
  conversions) ends in the handler, which counts the row as failed and continues.
\<close>

definition process_row :: "env \<Rightarrow> agent_state \<Rightarrow> employee \<Rightarrow> agent_state" where
  "process_row e s item =
     (let rid = row_id item;
          data1 = data_for_decision (e_lib e) (e_today e) (emp_data item)
      in case llm_decide (e_lib e) (e_oracle e) (e_max_retries e) (e_retry_delay e) data1 0
                (api_calls s, slept s) of
           (Inl err, nz) \<Rightarrow> row_failed (s\<lparr>api_calls := fst nz, slept := snd nz\<rparr>) rid
         | (Inr NotDict, nz) \<Rightarrow> row_failed (s\<lparr>api_calls := fst nz, slept := snd nz\<rparr>) rid
         | (Inr (Dict d), nz) \<Rightarrow>
             (let s1 = s\<lparr>api_calls := fst nz, slept := snd nz\<rparr>;
                  st = stage (e_lib e) (e_today e) (emp_data item) d
              in if \<not> snd st \<and> fst st = []
                 then s1\<lparr>skipped := skipped s1 + 1, log := log s1 @ [Row_skipped rid]\<rparr>
                 else write_row e s1 rid (fst st) d))"

fun process_rows :: "env \<Rightarrow> agent_state \<Rightarrow> employee list \<Rightarrow> agent_state" where
  "process_rows e s [] = s"
| "process_rows e s (item # items) = process_rows e (process_row e s item) items"

datatype outcome = Returned | Raised error

text \<open>
  Lines 154 to 323, the body of the outer \<open>try\<close>. A failure of the session or of the
  transport raises. A fetch tool that fails on the server answers with \<open>isError\<close>;
  line 169 logs it and continues with no employees.
\<close>

definition agent_body :: "env \<Rightarrow> agent_state \<Rightarrow> outcome \<times> agent_state" where
  "agent_body e s =
     (if \<not> e_session_ok e then (Raised ConnectionError, s)
      else
        (case get_all_employees (e_lib e) (xlsx s) of
           Inl err \<Rightarrow> (Returned, s\<lparr>total := 0, log := log s @ [Fetch_error, No_employees]\<rparr>)
         | Inr employees \<Rightarrow>
             (let s1 = s\<lparr>total := length employees\<rparr>
              in if total s1 = 0 then (Returned, s1\<lparr>log := log s1 @ [No_employees]\<rparr>)
                 else (Returned, process_rows e s1 employees))))"

definition initial_state :: "dataframe option \<Rightarrow> agent_state" where
  "initial_state file =
     \<lparr>xlsx = file, api_calls = 0, slept = 0, total = 0, success = 0, failed = 0, skipped = 0, log = []\<rparr>"

text \<open>Lines 328 to 341, the \<open>finally\<close> block (the elapsed time is not modelled).\<close>

definition print_summary :: "agent_state \<Rightarrow> agent_state" where
  "print_summary s = s\<lparr>log := log s @ [Summary (total s) (success s) (failed s) (skipped s)]\<rparr>"

definition run_agent :: "env \<Rightarrow> dataframe option \<Rightarrow> outcome \<times> agent_state" where
  "run_agent e file =
     (case agent_body e (initial_state file) of
        (Raised err, s) \<Rightarrow> (Raised err, print_summary (s\<lparr>log := log s @ [Fatal err]\<rparr>))
      | (Returned, s) \<Rightarrow> (Returned, print_summary s))"

section \<open>Auxiliary definitions for the statements\<close>

text \<open>
  What the block of lines 249 to 280 stages for a column, in one expression
  (\<open>stage_map\<close> proves that the staging computes it).
\<close>

definition staged_value :: "pylib \<Rightarrow> row \<Rightarrow> (string \<rightharpoonup> pyval) \<Rightarrow> string \<Rightarrow> pyval option" where
  "staged_value lib data d key =
     (if decision_value lib d key \<noteq> [] \<and>
         (is_blank lib (dict_get data key PNone) \<or>
          strip (py_str lib (dict_get data key PNone)) \<noteq> decision_value lib d key)
      then Some (PStr (decision_value lib d key)) else None)"

text \<open>
  Emptiness of a current value as the specification words it: null, NaN, or
  whitespace-only after trimming. It follows the specification, not the source, and is
  used only to compare the two.
\<close>

definition empty_as_specified :: "pylib \<Rightarrow> pyval \<Rightarrow> bool" where
  "empty_as_specified lib v = (v = PNone \<or> v = PNaN \<or> strip (py_str lib v) = [])"

text \<open>
  Stand-ins for evaluating examples. The date parser of the example library knows two
  dates (as day numbers of the proleptic Gregorian calendar); its JSON parser knows
  three documents: an empty object, a list, and the decision of the specification's
  end-to-end scenario.
\<close>

definition example_decision :: "string \<rightharpoonup> pyval" where
  "example_decision =
     [''Department'' \<mapsto> PStr ''Web'', ''Designation'' \<mapsto> PStr ''Senior'',
      ''Salary_Band'' \<mapsto> PStr ''L2'', ''Reason'' \<mapsto> PStr ''8 yrs exp'',
      ''Confidence'' \<mapsto> PFloat 0.9]"

definition example_lib :: pylib where
  "example_lib =
     \<lparr>float_str = (\<lambda>r. ''float''),
      datetime_str = (\<lambda>t. ''datetime''),
      isoformat = (\<lambda>t. ''isoformat''),
      to_datetime = (\<lambda>s. if s = ''2017-01-01'' then Some 736330
                          else if s = ''2024-01-01'' then Some 738886 else None),
      float_of_str = (\<lambda>s. None),
      json_loads = (\<lambda>s. if s = ''{}'' then Some (Dict Map.empty)
                         else if s = ''[]'' then Some NotDict
                         else if s = ''decision'' then Some (Dict example_decision)
                         else None)\<rparr>"

text \<open>An oracle whose every answer is text that is no JSON.\<close>

definition malformed_oracle :: "nat \<Rightarrow> row \<Rightarrow> api_result" where
  "malformed_oracle n r = ApiContent ''Senior''"

text \<open>The four columns that \<open>update_employee_row\<close> sets on every write, and the six it adds when absent.\<close>

definition audit_columns :: "string list" where
  "audit_columns = [''Is_Processed'', ''AI_Decision_Reason'', ''Confidence_Score'', ''Last_Processed_On'']"

definition required_columns :: "string list" where
  "required_columns = [''Is_Processed'', ''AI_Decision_Reason'', ''Confidence_Score'',
     ''Last_Processed_On'', ''Processing_Version'', ''Rule_Applied'']"

text \<open>
  An example spreadsheet of three rows. Row 0 is the record of the specification's
  end-to-end scenario; row 1 already carries the classification of \<open>example_decision\<close>
  and has no date of joining; row 2 is row 1 with a date of joining whose derived
  experience, 7.0, is the stored one. Blank cells read as NaN.
\<close>

definition example_columns :: "string list" where
  "example_columns = [''Name'', ''DOJ'', ''Experience_Years'', ''Department'', ''Designation'',
     ''Salary_Band'', ''Is_Processed'', ''AI_Decision_Reason'', ''Confidence_Score'',
     ''Last_Processed_On'', ''Processing_Version'', ''Rule_Applied'']"

definition blank_row :: row where
  "blank_row = [''Name'' \<mapsto> PNaN, ''DOJ'' \<mapsto> PNaN, ''Experience_Years'' \<mapsto> PNaN,
     ''Department'' \<mapsto> PNaN, ''Designation'' \<mapsto> PNaN, ''Salary_Band'' \<mapsto> PNaN,
     ''Is_Processed'' \<mapsto> PNaN, ''AI_Decision_Reason'' \<mapsto> PNaN, ''Confidence_Score'' \<mapsto> PNaN,
     ''Last_Processed_On'' \<mapsto> PNaN, ''Processing_Version'' \<mapsto> PNaN, ''Rule_Applied'' \<mapsto> PNaN]"

definition example_row0 :: row where
  "example_row0 = blank_row(''Name'' \<mapsto> PStr ''Asha'', ''DOJ'' \<mapsto> PStr ''2017-01-01'',
     ''Designation'' \<mapsto> PStr ''Junior'', ''Is_Processed'' \<mapsto> PStr ''No'')"

definition example_row1 :: row where
  "example_row1 = blank_row(''Name'' \<mapsto> PStr ''Ben'', ''Experience_Years'' \<mapsto> PFloat 7,
     ''Department'' \<mapsto> PStr ''Web'', ''Designation'' \<mapsto> PStr ''Senior'',
     ''Salary_Band'' \<mapsto> PStr ''L2'', ''Is_Processed'' \<mapsto> PStr ''No'')"

definition example_row2 :: row where
  "example_row2 = example_row1(''Name'' \<mapsto> PStr ''Chen'', ''DOJ'' \<mapsto> PStr ''2017-01-01'')"

definition example_df :: dataframe where
  "example_df = \<lparr>columns = example_columns, rows = [example_row0, example_row1, example_row2]\<rparr>"

text \<open>An oracle that always answers with the example decision, and a run environment.\<close>

definition example_oracle :: "nat \<Rightarrow> row \<Rightarrow> api_result" where
  "example_oracle n r = ApiContent ''decision''"

definition example_env :: env where
  "example_env =
     \<lparr>e_lib = example_lib, e_today = 738886, e_now = 1704067200, e_oracle = example_oracle,
      e_max_retries = 3, e_retry_delay = 2, e_session_ok = True, e_save_ok = (\<lambda>n. True)\<rparr>"

text \<open>
  The update set that the scenario stages for row 0, and the spreadsheet after it is
  written.
\<close>

definition example_updates :: updates where
  "example_updates = [(''Experience_Years'', PFloat 7), (''Department'', PStr ''Web''),
      (''Designation'', PStr ''Senior''), (''Salary_Band'', PStr ''L2'')]"

definition example_df_written :: dataframe where
  "example_df_written = set_audit 0 ''8 yrs exp'' (PFloat 0.9) 1704067200
     (apply_updates 0 example_updates (ensure_required_columns example_df))"

text \<open>
  A spreadsheet whose only employee joined today (2024-01-01), and the same after the
  agent's update set is written.
\<close>

definition example_row_new :: row where
  "example_row_new = example_row0(''DOJ'' \<mapsto> PStr ''2024-01-01'')"

definition example_df_new :: dataframe where
  "example_df_new = \<lparr>columns = example_columns, rows = [example_row_new]\<rparr>"

definition example_df_new_written :: dataframe where
  "example_df_new_written = set_audit 0 ''8 yrs exp'' (PFloat 0.9) 1704067200
     (apply_updates 0 (fst (stage example_lib 738886 example_row_new example_decision))
        (ensure_required_columns example_df_new))"






definition example_item :: "nat \<Rightarrow> employee" where
  "example_item i = \<lparr>row_id = i,
     emp_data = map_option (convert_to_json_serializable example_lib) \<circ> (rows example_df ! i)\<rparr>"

definition example_df_final :: dataframe where
  "example_df_final = set_audit 2 ''8 yrs exp'' (PFloat 0.9) 1704067200
     (apply_updates 2 [(''Experience_Years'', PFloat 7)] (ensure_required_columns example_df_written))"


section \<open>Strings\<close>

lemma strip_Nil_or: "strip s = [] \<or> (\<not> is_space (hd (strip s)) \<and> \<not> is_space (last (strip s)))"
proof -
  let ?a = "dropWhile is_space s"
  let ?b = "dropWhile is_space (rev ?a)"
  show ?thesis
  proof (cases "?b = []")
    case True then show ?thesis by (simp add: strip_def)
  next
    case False
    have hb: "\<not> is_space (hd ?b)" using False by (rule hd_dropWhile)
    have "?a \<noteq> []" using False by (cases "?a = []") simp_all
    then have ha: "\<not> is_space (hd ?a)" by (rule hd_dropWhile)
    have "rev ?a = takeWhile is_space (rev ?a) @ ?b" by simp
    then have "?a = rev ?b @ rev (takeWhile is_space (rev ?a))" by (metis rev_append rev_rev_ident)
    then have "hd ?a = hd (rev ?b)" using False by (metis hd_append2 rev_is_Nil_conv)
    with ha hb False show ?thesis by (simp add: strip_def last_rev hd_rev)
  qed
qed

lemma dropWhile_id: "xs = [] \<or> \<not> P (hd xs) \<Longrightarrow> dropWhile P xs = xs"
  by (cases xs) auto

text \<open>Stripping twice is stripping once: the decision's values are already stripped.\<close>

lemma strip_idem: "strip (strip s) = strip s"
proof -
  have 1: "dropWhile is_space (strip s) = strip s"
    using strip_Nil_or[of s] by (intro dropWhile_id) auto
  have 2: "dropWhile is_space (rev (strip s)) = rev (strip s)"
    using strip_Nil_or[of s] by (intro dropWhile_id) (auto simp: hd_rev)
  show ?thesis
    unfolding strip_def[of "strip s"] 1 2 by simp
qed

lemma strip_decision_value: "strip (decision_value lib d key) = decision_value lib d key"
  by (simp add: decision_value_def strip_idem)

lemma string_of_int_0: "string_of_int 0 = ''0''"
  by (simp add: string_of_int_def string_of_nat.simps)

section \<open>The experience is never a rounding tie\<close>

text \<open>
  \<open>days / 365.25\<close>, taken to tenths, never lies halfway between two tenths: the
  equation \<open>80 * days = 1461 * (2 * k + 1)\<close> has an even left and an odd right side.
  So every rounding rule gives the value of \<open>py_round1\<close>.
\<close>

lemma experience_never_tie: "frac ((of_int days / 365.25 :: rat) * 10) \<noteq> 1 / 2"
proof
  assume h: "frac ((of_int days / 365.25 :: rat) * 10) = 1 / 2"
  define k where "k = \<lfloor>(of_int days / 365.25 :: rat) * 10\<rfloor>"
  have "(of_int days / 365.25 :: rat) * 10 = of_int k + 1 / 2"
    using h by (simp add: frac_def k_def)
  then have "(of_int days :: rat) * 80 = of_int (1461 * (2 * k + 1))"
    by (simp add: field_simps)
  then have "days * 80 = 1461 * (2 * k + 1)"
    by (metis of_int_eq_iff of_int_mult of_int_numeral)
  then have "even (1461 * (2 * k + 1))" by (metis even_mult_iff even_numeral)
  then show False by simp
qed

lemma example_round: "py_round1 (of_int (738886 - 736330) / 365.25) = 7"
proof -
  have "round (68160 / 487 / 2 * (1::rat)) = 70"
    unfolding round_def by (rule floor_unique) simp_all
  moreover have "(of_int (738886 - 736330) / 365.25 :: rat) * 10 = 68160 / 487 / 2 * 1" by simp
  ultimately show ?thesis unfolding py_round1_def by simp
qed

section \<open>The retries of the oracle client\<close>

lemma strip_fences_Senior: "strip_fences ''Senior'' = ''Senior''"
  by (simp add: strip_fences_def strip_def is_space_def fence_def Let_def)


text \<open>When every call raises, the retries are the configured ones: \<open>k + 1\<close> calls.\<close>

lemma llm_decide_always_api_error:
  assumes "\<And>n. oracle n r = ApiError"
  shows "max_retries - retry_count = k \<Longrightarrow>
     llm_decide lib oracle max_retries retry_delay r retry_count (n, z) =
       (Inl APIError, (n + Suc k, z + retry_delay * k))"
proof (induction k arbitrary: retry_count n z)
  case 0
  then have "\<not> retry_count < max_retries" by simp
  then show ?case
    by (subst llm_decide.simps) (simp add: assms)
next
  case (Suc k)
  from Suc.prems have lt: "retry_count < max_retries" and k: "max_retries - (retry_count + 1) = k"
    by simp_all
  have "llm_decide lib oracle max_retries retry_delay r retry_count (n, z) =
      llm_decide lib oracle max_retries retry_delay r (retry_count + 1) (n + 1, z + retry_delay)"
    by (subst llm_decide.simps) (simp only: assms lt api_result.case if_True)
  then show ?case unfolding Suc.IH [OF k] by (simp add: algebra_simps)
qed

text \<open>A call that parses returns the parsed decision after that one call.\<close>

lemma llm_decide_first_success:
  "oracle n r = ApiContent c \<Longrightarrow> json_loads lib (strip_fences c) = Some dec \<Longrightarrow>
     llm_decide lib oracle max_retries retry_delay r retry_count (n, z) = (Inr dec, (n + 1, z))"
  by (subst llm_decide.simps) simp

section \<open>What a row stages\<close>

lemma not_blank_truthy: "\<not> is_blank lib v \<Longrightarrow> truthy v"
  by (simp add: is_blank_def)

lemma merge_field_map:
  "map_of (fst (merge_field lib data key dec st)) =
     (if dec \<noteq> [] \<and> (is_blank lib (dict_get data key PNone) \<or>
                       strip (py_str lib (dict_get data key PNone)) \<noteq> strip dec)
      then (map_of (fst st))(key \<mapsto> PStr dec) else map_of (fst st))"
  by (auto simp: merge_field_def Let_def update_conv' dest: not_blank_truthy)

lemma merge_field_needs:
  "snd (merge_field lib data key dec st) =
     (snd st \<or> dec \<noteq> [] \<and> (is_blank lib (dict_get data key PNone) \<or>
                       strip (py_str lib (dict_get data key PNone)) \<noteq> strip dec))"
  by (auto simp: merge_field_def Let_def dest: not_blank_truthy)

lemma data_for_decision_other:
  "key \<noteq> ''Experience_Years'' \<Longrightarrow>
     dict_get (data_for_decision lib today data) key dflt = dict_get data key dflt"
  by (simp add: data_for_decision_def Let_def dict_get_def)

lemma data_for_decision_None:
  "calculated_experience lib today (dict_get data ''DOJ'' PNone) = None \<Longrightarrow>
     data_for_decision lib today data = data"
  by (auto simp: data_for_decision_def Let_def dict_get_def split: option.splits)

lemma stage_experience_map:
  "map_of (fst (stage_experience lib today data)) =
     (case calculated_experience lib today (dict_get data ''DOJ'' PNone) of
        Some e \<Rightarrow> [''Experience_Years'' \<mapsto> PFloat e] | None \<Rightarrow> Map.empty)"
  by (simp add: stage_experience_def split: option.splits)

lemma stage_experience_needs:
  "snd (stage_experience lib today data) =
     (calculated_experience lib today (dict_get data ''DOJ'' PNone) \<noteq> None)"
  by (simp add: stage_experience_def split: option.splits)

lemma stage_map:
  "map_of (fst (stage lib today data d)) key =
     (if key = ''Salary_Band'' then staged_value lib data d ''Salary_Band''
      else if key = ''Designation'' then staged_value lib data d ''Designation''
      else if key = ''Department'' then staged_value lib data d ''Department''
      else if key = ''Experience_Years''
        then map_option PFloat (calculated_experience lib today (dict_get data ''DOJ'' PNone))
      else None)"
  by (simp add: stage_def reconcile_def Let_def merge_field_map data_for_decision_other
      strip_decision_value stage_experience_map staged_value_def split: option.splits)

lemma stage_needs:
  "snd (stage lib today data d) =
     (calculated_experience lib today (dict_get data ''DOJ'' PNone) \<noteq> None \<or>
      staged_value lib data d ''Department'' \<noteq> None \<or>
      staged_value lib data d ''Designation'' \<noteq> None \<or>
      staged_value lib data d ''Salary_Band'' \<noteq> None)"
  by (simp add: stage_def reconcile_def Let_def merge_field_needs data_for_decision_other
      strip_decision_value stage_experience_needs staged_value_def)

section \<open>The record store\<close>

lemma length_set_cell [simp]: "length (rows (set_cell i c v df)) = length (rows df)"
  by (simp add: set_cell_def)

lemma columns_set_cell [simp]: "columns (set_cell i c v df) = columns df"
  by (simp add: set_cell_def)

lemma rows_set_cell_other [simp]: "j \<noteq> i \<Longrightarrow> rows (set_cell i c v df) ! j = rows df ! j"
  by (simp add: set_cell_def)

lemma rows_set_cell_same [simp]:
  "i < length (rows df) \<Longrightarrow> rows (set_cell i c v df) ! i = (rows df ! i)(c \<mapsto> v)"
  by (simp add: set_cell_def)

lemma length_apply_updates [simp]: "length (rows (apply_updates i us df)) = length (rows df)"
  by (induction us arbitrary: df) auto

lemma columns_apply_updates [simp]: "columns (apply_updates i us df) = columns df"
  by (induction us arbitrary: df) auto

lemma apply_updates_other_row [simp]: "j \<noteq> i \<Longrightarrow> rows (apply_updates i us df) ! j = rows df ! j"
  by (induction us arbitrary: df) auto

lemma apply_updates_untouched:
  "\<forall>v. (c, v) \<in> set us \<longrightarrow> \<not> truthy v \<Longrightarrow>
     (rows (apply_updates i us df) ! i) c = (rows df ! i) c"
proof (induction us arbitrary: df)
  case Nil
  then show ?case by simp
next
  case (Cons u us)
  obtain c' v' where u: "u = (c', v')" by (cases u)
  have ih: "(rows (apply_updates i us df') ! i) c = (rows df' ! i) c" for df'
    using Cons.prems by (intro Cons.IH) auto
  show ?case
  proof (cases "truthy v' \<and> c' \<in> set (columns df)")
    case True
    with Cons.prems u have "c' \<noteq> c" by auto
    then have "(rows (set_cell i c' v' df) ! i) c = (rows df ! i) c"
      by (cases "i < length (rows df)") (simp_all add: set_cell_def list_update_beyond)
    with True u ih show ?thesis by simp
  next
    case False
    with u ih show ?thesis by auto
  qed
qed

lemma apply_updates_written:
  "i < length (rows df) \<Longrightarrow> distinct (map fst us) \<Longrightarrow> (c, v) \<in> set us \<Longrightarrow> truthy v \<Longrightarrow>
     c \<in> set (columns df) \<Longrightarrow> (rows (apply_updates i us df) ! i) c = Some v"
proof (induction us arbitrary: df)
  case Nil
  then show ?case by simp
next
  case (Cons u us)
  obtain c' v' where u: "u = (c', v')" by (cases u)
  let ?df = "if truthy v' \<and> c' \<in> set (columns df) then set_cell i c' v' df else df"
  have len: "i < length (rows ?df)" and col: "c \<in> set (columns ?df)"
    using Cons.prems by auto
  show ?case
  proof (cases "(c, v) = u")
    case True
    with Cons.prems u have "\<forall>w. (c, w) \<in> set us \<longrightarrow> \<not> truthy w"
      by (auto simp: image_iff) 
    then have "(rows (apply_updates i us ?df) ! i) c = (rows ?df ! i) c"
      by (rule apply_updates_untouched)
    with True u Cons.prems show ?thesis by auto
  next
    case False
    with Cons.prems have "(c, v) \<in> set us" "distinct (map fst us)" by auto
    with len col Cons.prems have "(rows (apply_updates i us ?df) ! i) c = Some v"
      by (intro Cons.IH) auto
    with u show ?thesis by simp
  qed
qed

lemma length_ensure_column [simp]: "length (rows (ensure_column c v df)) = length (rows df)"
  by (simp add: ensure_column_def)

lemma columns_ensure_column: "set (columns (ensure_column c v df)) = insert c (set (columns df))"
  by (auto simp: ensure_column_def)

lemma ensure_column_cell:
  "i < length (rows df) \<Longrightarrow> k \<in> set (columns df) \<Longrightarrow> (rows (ensure_column c v df) ! i) k = (rows df ! i) k"
  by (auto simp: ensure_column_def)

lemma ensure_column_present: "c \<in> set (columns df) \<Longrightarrow> ensure_column c v df = df"
  by (simp add: ensure_column_def)

lemma length_ensure_required [simp]: "length (rows (ensure_required_columns df)) = length (rows df)"
  by (simp add: ensure_required_columns_def)

lemma columns_ensure_required:
  "set (columns (ensure_required_columns df)) = set required_columns \<union> set (columns df)"
  by (auto simp: ensure_required_columns_def columns_ensure_column required_columns_def)

lemma ensure_required_cell:
  "i < length (rows df) \<Longrightarrow> k \<in> set (columns df) \<Longrightarrow>
     (rows (ensure_required_columns df) ! i) k = (rows df ! i) k"
  by (simp add: ensure_required_columns_def ensure_column_cell columns_ensure_column)

lemma ensure_required_present:
  "set required_columns \<subseteq> set (columns df) \<Longrightarrow> ensure_required_columns df = df"
  by (simp add: ensure_required_columns_def required_columns_def ensure_column_present)

lemma length_set_audit [simp]: "length (rows (set_audit i reason confidence now df)) = length (rows df)"
  by (simp add: set_audit_def)

lemma columns_set_audit [simp]: "columns (set_audit i reason confidence now df) = columns df"
  by (simp add: set_audit_def)

lemma set_audit_other_row [simp]: "j \<noteq> i \<Longrightarrow> rows (set_audit i reason confidence now df) ! j = rows df ! j"
  by (simp add: set_audit_def)

lemma set_audit_row:
  "i < length (rows df) \<Longrightarrow>
     rows (set_audit i reason confidence now df) ! i =
       (rows df ! i)(''Is_Processed'' \<mapsto> PStr ''Yes'', ''AI_Decision_Reason'' \<mapsto> PStr reason,
          ''Confidence_Score'' \<mapsto> confidence, ''Last_Processed_On'' \<mapsto> PDatetime now)"
  by (simp add: set_audit_def)

lemma update_employee_row_success:
  assumes "update_employee_row lib save_ok now (Some df) rid upd reason confidence = (Inr res, file')"
  shows "0 \<le> rid \<and> nat rid < length (rows df) \<and> validate lib upd = None \<and> save_ok \<and>
         file' = Some (set_audit (nat rid) reason confidence now
                        (apply_updates (nat rid) upd (ensure_required_columns df)))"
  using assms by (auto simp: update_employee_row_def split: if_splits option.splits)

lemma validate_bad:
  "(c, v) \<in> set upd \<Longrightarrow> map_of DROPDOWNS c = Some allowed \<Longrightarrow> truthy v \<Longrightarrow>
     strip (py_str lib v) \<noteq> [] \<Longrightarrow> \<not> py_in v allowed \<Longrightarrow>
     \<exists>v' c'. validate lib upd = Some (ValueError (Invalid_value v' c'))"
proof (induction upd)
  case Nil
  then show ?case by simp
next
  case (Cons u upd)
  obtain c0 v0 where u: "u = (c0, v0)" by (cases u)
  show ?case
  proof (cases "(c, v) = u")
    case True
    with Cons.prems u show ?thesis by auto
  next
    case False
    with Cons have "\<exists>v' c'. validate lib upd = Some (ValueError (Invalid_value v' c'))" by auto
    then show ?thesis unfolding u by (auto split: option.splits)
  qed
qed

lemma audit_required: "set audit_columns \<subseteq> set required_columns"
  by (simp add: audit_columns_def required_columns_def)

lemma example_validate:
  "validate example_lib [(''Experience_Years'', PFloat 7), (''Department'', PStr ''Web''),
      (''Designation'', PStr ''Senior''), (''Salary_Band'', PStr ''L2'')] = None"
  by (simp add: DROPDOWNS_def)

lemma example_required: "set required_columns \<subseteq> set (columns example_df)"
  by (simp add: required_columns_def example_df_def example_columns_def)

lemma example_update:
  "update_employee_row example_lib True 1704067200 (Some example_df) 0 example_updates ''8 yrs exp'' (PFloat 0.9)
     = (Inr (0, example_updates), Some example_df_written)"
  by (simp add: update_employee_row_def example_updates_def example_df_written_def DROPDOWNS_def example_df_def)

lemma distinct_stage: "distinct (map fst (fst (stage lib today data d)))"
  by (simp add: stage_def reconcile_def Let_def merge_field_def stage_experience_def
      distinct_update split: option.splits)

lemma update_employee_row_falsy:
  assumes "update_employee_row lib save_ok now (Some df) rid upd reason confidence = (Inr res, Some df')"
    and "distinct (map fst upd)" and "(c, v) \<in> set upd" and "\<not> truthy v"
    and "c \<in> set (columns df)" and "c \<notin> set audit_columns"
  shows "(rows df' ! nat rid) c = (rows df ! nat rid) c"
proof -
  let ?i = "nat rid"
  let ?df1 = "ensure_required_columns df"
  let ?df2 = "apply_updates ?i upd ?df1"
  from update_employee_row_success [OF assms(1)]
  have rid: "?i < length (rows df)" and df': "df' = set_audit ?i reason confidence now ?df2"
    by auto
  have "\<forall>w. (c, w) \<in> set upd \<longrightarrow> \<not> truthy w"
    using assms(2,3,4) by (metis eq_key_imp_eq_value)
  then have "(rows ?df2 ! ?i) c = (rows ?df1 ! ?i) c"
    by (rule apply_updates_untouched)
  also have "\<dots> = (rows df ! ?i) c"
    using rid assms(5) by (rule ensure_required_cell)
  finally show ?thesis
    using assms(6) rid by (simp add: df' set_audit_row audit_columns_def)
qed

lemma example_stage_new:
  "fst (stage example_lib 738886 example_row_new example_decision) =
     [(''Experience_Years'', PFloat 0), (''Department'', PStr ''Web''),
      (''Designation'', PStr ''Senior''), (''Salary_Band'', PStr ''L2'')]"
  by (simp add: stage_def reconcile_def Let_def merge_field_def stage_experience_def
      calculated_experience_def parse_doj_def py_round1_def dict_get_def example_row_new_def
      example_row0_def blank_row_def example_lib_def example_decision_def decision_value_def
      data_for_decision_def is_blank_def strip_def is_space_def)

lemma example_update_new:
  "update_employee_row example_lib True 1704067200 (Some example_df_new) 0
      (fst (stage example_lib 738886 example_row_new example_decision)) ''8 yrs exp'' (PFloat 0.9)
     = (Inr (0, fst (stage example_lib 738886 example_row_new example_decision)), Some example_df_new_written)"
  unfolding example_df_new_written_def
  by (simp add: example_stage_new update_employee_row_def DROPDOWNS_def example_df_new_def)

section \<open>The row loop\<close>

lemma row_failed_simps [simp]:
  "xlsx (row_failed s n) = xlsx s" "total (row_failed s n) = total s"
  "success (row_failed s n) = success s" "failed (row_failed s n) = failed s + 1"
  "skipped (row_failed s n) = skipped s" "log (row_failed s n) = log s @ [Row_failed n]"
  "api_calls (row_failed s n) = api_calls s" "slept (row_failed s n) = slept s"
  by (simp_all add: row_failed_def)







lemma length_get_all_employees:
  "get_all_employees lib (Some df) = Inr emps \<Longrightarrow> length emps = length (rows df)"
  by (auto simp: get_all_employees_def)

lemma print_summary_last:
  "last (log (print_summary s)) = Summary (total s) (success s) (failed s) (skipped s)"
  by (simp add: print_summary_def)

lemma print_summary_fields [simp]:
  "total (print_summary s) = total s" "success (print_summary s) = success s"
  "failed (print_summary s) = failed s" "skipped (print_summary s) = skipped s"
  "xlsx (print_summary s) = xlsx s" "api_calls (print_summary s) = api_calls s"
  by (simp_all add: print_summary_def)





section \<open>Example runs\<close>

lemma example_employees:
  "get_all_employees example_lib (Some example_df) =
     Inr [\<lparr>row_id = 0, emp_data = map_option (convert_to_json_serializable example_lib) \<circ> example_row0\<rparr>,
          \<lparr>row_id = 1, emp_data = map_option (convert_to_json_serializable example_lib) \<circ> example_row1\<rparr>,
          \<lparr>row_id = 2, emp_data = map_option (convert_to_json_serializable example_lib) \<circ> example_row2\<rparr>]"
  by (simp add: get_all_employees_def example_df_def enumerate_eq_zip upt_rec)



lemma merge_field_unchanged:
  "staged_value lib data d key = None \<Longrightarrow> merge_field lib data key (decision_value lib d key) st = st"
  by (auto simp: staged_value_def merge_field_def Let_def strip_decision_value split: if_splits)

lemma stage_nothing:
  assumes "calculated_experience lib today (dict_get data ''DOJ'' PNone) = None"
    and "staged_value lib data d ''Department'' = None"
    and "staged_value lib data d ''Designation'' = None"
    and "staged_value lib data d ''Salary_Band'' = None"
  shows "stage lib today data d = ([], False)"
proof -
  have d: "data_for_decision lib today data = data"
    using assms(1) by (rule data_for_decision_None)
  show ?thesis
    by (simp add: stage_def reconcile_def Let_def d merge_field_unchanged assms stage_experience_def)
qed

lemma strip_fences_decision: "strip_fences ''decision'' = ''decision''"
  by (simp add: strip_fences_def strip_def is_space_def fence_def Let_def)

lemma example_llm:
  "llm_decide (e_lib example_env) (e_oracle example_env) (e_max_retries example_env)
     (e_retry_delay example_env) r 0 (n, z) = (Inr (Dict example_decision), (n + 1, z))"
  by (rule llm_decide_first_success [of _ _ _ "''decision''"])
     (simp_all add: example_env_def example_oracle_def strip_fences_decision example_lib_def)

lemmas example_eval =
  stage_def reconcile_def Let_def merge_field_def stage_experience_def
  calculated_experience_def parse_doj_def dict_get_def example_item_def example_df_def
  example_row0_def example_row1_def example_row2_def blank_row_def example_lib_def
  example_decision_def decision_value_def data_for_decision_def is_blank_def strip_def is_space_def

lemma example_stage0:
  "stage example_lib 738886 (emp_data (example_item 0)) example_decision = (example_updates, True)"
  using example_round by (simp add: example_eval example_updates_def)

lemma example_stage1:
  "stage example_lib 738886 (emp_data (example_item 1)) example_decision = ([], False)"
  by (simp add: example_eval)

lemma example_stage2:
  "stage example_lib 738886 (emp_data (example_item 2)) example_decision
     = ([(''Experience_Years'', PFloat 7)], True)"
  using example_round by (simp add: example_eval)

lemma example_items:
  "get_all_employees (e_lib example_env) (Some example_df) = Inr [example_item 0, example_item 1, example_item 2]"
  using example_employees by (simp add: example_env_def example_item_def example_df_def)

lemma example_confidence:
  "py_float example_lib (dict_get example_decision ''Confidence'' (PFloat 0)) = Inr (PFloat 0.9)"
  "py_str example_lib (dict_get example_decision ''Reason'' (PStr [])) = ''8 yrs exp''"
  by (simp_all add: dict_get_def example_decision_def)

lemma example_update2:
  "update_employee_row example_lib True 1704067200 (Some example_df_written) 2
      [(''Experience_Years'', PFloat 7)] ''8 yrs exp'' (PFloat 0.9)
     = (Inr (2, [(''Experience_Years'', PFloat 7)]), Some example_df_final)"
  by (simp add: update_employee_row_def DROPDOWNS_def example_df_final_def example_df_written_def
      example_df_def)

lemma example_llm':
  "llm_decide example_lib example_oracle 3 2 r 0 (n, z) = (Inr (Dict example_decision), (n + 1, z))"
  using example_llm [of r n z] by (simp add: example_env_def)

lemmas example_env_fields =
  example_env_def [THEN arg_cong, of e_lib, simplified]
  example_env_def [THEN arg_cong, of e_today, simplified]
  example_env_def [THEN arg_cong, of e_now, simplified]
  example_env_def [THEN arg_cong, of e_oracle, simplified]
  example_env_def [THEN arg_cong, of e_max_retries, simplified]
  example_env_def [THEN arg_cong, of e_retry_delay, simplified]
  example_env_def [THEN arg_cong, of e_save_ok, simplified]

lemma example_row_ids:
  "row_id (example_item 0) = 0" "row_id (example_item 1) = 1" "row_id (example_item 2) = 2"
  by (simp_all add: example_item_def)

lemmas example_steps =
  process_row_def Let_def example_env_fields example_llm' example_row_ids
  example_stage0 example_stage1 example_stage2 fst_conv snd_conv of_nat_0 of_nat_numeral
  write_row_def example_confidence example_update example_update2
  prod.case sum.case decision.case if_True if_False simp_thms

lemma example_process0:
  assumes "xlsx s = Some example_df"
  shows "process_row example_env s (example_item 0) =
     s\<lparr>xlsx := Some example_df_written, api_calls := api_calls s + 1, success := success s + 1,
       log := log s @ [Row_updated 0]\<rparr>"
  unfolding example_steps using assms example_update by simp

lemma example_process1:
  "process_row example_env s (example_item 1) =
     s\<lparr>api_calls := api_calls s + 1, skipped := skipped s + 1, log := log s @ [Row_skipped 1]\<rparr>"
  unfolding example_steps by simp

lemma example_process2:
  assumes "xlsx s = Some example_df_written"
  shows "process_row example_env s (example_item 2) =
     s\<lparr>xlsx := Some example_df_final, api_calls := api_calls s + 1, success := success s + 1,
       log := log s @ [Row_updated 2]\<rparr>"
  unfolding example_steps using assms example_update2 by simp

lemma example_run:
  "run_agent example_env (Some example_df) =
     (Returned, \<lparr>xlsx = Some example_df_final, api_calls = 3, slept = 0, total = 3, success = 2,
                 failed = 0, skipped = 1,
                 log = [Row_updated 0, Row_skipped 1, Row_updated 2, Summary 3 2 0 1]\<rparr>)"
proof -
  have s: "e_session_ok example_env" by (simp add: example_env_def)
  show ?thesis
    by (simp add: run_agent_def agent_body_def initial_state_def example_items s Let_def
        example_process0 example_process1 example_process2 print_summary_def
        del: One_nat_def)
qed

lemma example_written_required:
  "ensure_required_columns example_df = example_df"
  "ensure_required_columns example_df_written = example_df_written"
proof -
  show 1: "ensure_required_columns example_df = example_df"
    by (rule ensure_required_present [OF example_required])
  have "set required_columns \<subseteq> set (columns example_df_written)"
    unfolding example_df_written_def 1 by (simp add: example_required)
  then show "ensure_required_columns example_df_written = example_df_written"
    by (rule ensure_required_present)
qed

lemma example_final_rows:
  "rows example_df_final ! 1 = example_row1"
  "(rows example_df_final ! 2) ''Is_Processed'' = Some (PStr ''Yes'')"
  "(rows example_df ! 2) ''Is_Processed'' = Some (PStr ''No'')"
  "(rows example_df ! 1) ''Is_Processed'' = Some (PStr ''No'')"
proof -
  have "rows example_df_final ! 1 = rows example_df_written ! 1"
    unfolding example_df_final_def example_written_required by simp
  also have "\<dots> = rows example_df ! 1"
    unfolding example_df_written_def example_written_required by simp
  finally show "rows example_df_final ! 1 = example_row1"
    by (simp add: example_df_def)
  have "length (rows example_df_written) = 3"
    unfolding example_df_written_def by (simp add: example_df_def)
  then show "(rows example_df_final ! 2) ''Is_Processed'' = Some (PStr ''Yes'')"
    unfolding example_df_final_def example_written_required by (simp add: set_audit_row)
  show "(rows example_df ! 2) ''Is_Processed'' = Some (PStr ''No'')"
    "(rows example_df ! 1) ''Is_Processed'' = Some (PStr ''No'')"
    by (simp_all add: example_df_def example_row2_def example_row1_def)
qed

section \<open>A second run over a written row\<close>

lemma ensure_column_cell_other:
  "i < length (rows df) \<Longrightarrow> k \<noteq> c \<Longrightarrow> (rows (ensure_column c v df) ! i) k = (rows df ! i) k"
  by (auto simp: ensure_column_def)

lemma ensure_required_cell_other:
  "i < length (rows df) \<Longrightarrow> k \<notin> set required_columns \<Longrightarrow>
     (rows (ensure_required_columns df) ! i) k = (rows df ! i) k"
  by (simp add: ensure_required_columns_def required_columns_def ensure_column_cell_other)

lemma update_employee_row_untouched:
  assumes "update_employee_row lib save_ok now (Some df) rid upd reason confidence = (Inr res, Some df')"
    and "\<forall>v. (c, v) \<in> set upd \<longrightarrow> \<not> truthy v"
    and "c \<in> set (columns df) \<or> c \<notin> set required_columns"
    and "c \<notin> set audit_columns"
  shows "(rows df' ! nat rid) c = (rows df ! nat rid) c"
proof -
  let ?i = "nat rid"
  let ?df1 = "ensure_required_columns df"
  let ?df2 = "apply_updates ?i upd ?df1"
  from update_employee_row_success [OF assms(1)]
  have rid: "?i < length (rows df)" and df': "df' = set_audit ?i reason confidence now ?df2"
    by auto
  have "(rows ?df2 ! ?i) c = (rows ?df1 ! ?i) c"
    using assms(2) by (rule apply_updates_untouched)
  also have "\<dots> = (rows df ! ?i) c"
    using rid assms(3) ensure_required_cell ensure_required_cell_other by blast
  finally show ?thesis
    using assms(4) rid by (simp add: df' set_audit_row audit_columns_def)
qed

lemma update_employee_row_written:
  assumes "update_employee_row lib save_ok now (Some df) rid upd reason confidence = (Inr res, Some df')"
    and "distinct (map fst upd)" and "(c, v) \<in> set upd" and "truthy v"
    and "c \<in> set (columns df)" and "c \<notin> set audit_columns"
  shows "(rows df' ! nat rid) c = Some v"
proof -
  let ?i = "nat rid"
  let ?df1 = "ensure_required_columns df"
  let ?df2 = "apply_updates ?i upd ?df1"
  from update_employee_row_success [OF assms(1)]
  have rid: "?i < length (rows df)" and df': "df' = set_audit ?i reason confidence now ?df2"
    by auto
  have "c \<in> set (columns ?df1)" using assms(5) by (simp add: columns_ensure_required)
  with assms rid have "(rows ?df2 ! ?i) c = Some v"
    by (intro apply_updates_written) auto
  then show ?thesis
    using assms(6) rid by (simp add: df' set_audit_row audit_columns_def)
qed

lemma update_employee_row_processed:
  assumes "update_employee_row lib save_ok now (Some df) rid upd reason confidence = (Inr res, Some df')"
  shows "(rows df' ! nat rid) ''Is_Processed'' = Some (PStr ''Yes'')"
proof -
  from update_employee_row_success [OF assms]
  have "nat rid < length (rows df)"
    and "df' = set_audit (nat rid) reason confidence now
                 (apply_updates (nat rid) upd (ensure_required_columns df))"
    by auto
  then show ?thesis by (simp add: set_audit_row)
qed

lemma update_employee_row_error:
  "update_employee_row lib save_ok now fl rid upd reason confidence = (Inl err, fl') \<Longrightarrow> fl' = fl"
  by (auto simp: update_employee_row_def split: option.splits if_splits)

lemma stage_keys:
  "(c, v) \<in> set (fst (stage lib today data d)) \<Longrightarrow>
     c \<in> {''Experience_Years'', ''Department'', ''Designation'', ''Salary_Band''}"
proof -
  assume "(c, v) \<in> set (fst (stage lib today data d))"
  then have "map_of (fst (stage lib today data d)) c \<noteq> None"
    by (metis distinct_stage map_of_eq_Some_iff option.distinct(1))
  then show ?thesis
    by (auto simp: stage_map split: if_splits)
qed

lemma fetched_get:
  "dict_get (map_option (convert_to_json_serializable lib) \<circ> r) k PNone =
     (case r k of None \<Rightarrow> PNone | Some v \<Rightarrow> convert_to_json_serializable lib v)"
  by (simp add: dict_get_def split: option.splits)

lemma staged_value_settled:
  assumes "dict_get data' F PNone = PStr (decision_value lib d F)" and "decision_value lib d F \<noteq> []"
  shows "staged_value lib data' d F = None"
  using assms by (simp add: staged_value_def is_blank_def strip_decision_value)

lemma second_run_field:
  assumes rid: "rid < length (rows df)"
    and col: "F \<in> set (columns df)"
    and F: "F \<in> {''Department'', ''Designation'', ''Salary_Band''}"
    and data: "data = map_option (convert_to_json_serializable lib) \<circ> (rows df ! rid)"
    and upd: "update_employee_row lib save_ok now (Some df) (int rid) (fst (stage lib today data d))
                reason confidence = (Inr res, Some df')"
    and data': "data' = map_option (convert_to_json_serializable lib) \<circ> (rows df' ! rid)"
  shows "staged_value lib data' d F = None"
proof (cases "staged_value lib data d F")
  case None
  then have "map_of (fst (stage lib today data d)) F = None"
    using F by (auto simp: stage_map)
  then have "\<forall>v. (F, v) \<in> set (fst (stage lib today data d)) \<longrightarrow> \<not> truthy v"
    by (metis distinct_stage map_of_eq_Some_iff option.distinct(1))
  moreover have "F \<notin> set audit_columns" using F by (auto simp: audit_columns_def)
  ultimately have "(rows df' ! nat (int rid)) F = (rows df ! nat (int rid)) F"
    using update_employee_row_untouched [OF upd] col by blast
  then have "dict_get data' F PNone = dict_get data F PNone"
    by (simp add: data data' fetched_get)
  with None show ?thesis by (simp add: staged_value_def)
next
  case (Some v)
  then have v: "v = PStr (decision_value lib d F)" and ne: "decision_value lib d F \<noteq> []"
    by (auto simp: staged_value_def split: if_splits)
  from Some have "map_of (fst (stage lib today data d)) F = Some v"
    using F by (auto simp: stage_map)
  then have mem: "(F, v) \<in> set (fst (stage lib today data d))"
    by (rule map_of_SomeD)
  have "truthy v" using v ne by simp
  moreover have "F \<notin> set audit_columns" using F by (auto simp: audit_columns_def)
  ultimately have "(rows df' ! nat (int rid)) F = Some v"
    using update_employee_row_written [OF upd distinct_stage mem] col by blast
  then have "dict_get data' F PNone = PStr (decision_value lib d F)"
    by (simp add: data' fetched_get v)
  then show ?thesis using ne by (rule staged_value_settled)
qed


section \<open>The claims\<close>

text \<open>
  C1, as amended. For each of Department, Designation and Salary_Band, independently:
  if the current value is blank (falsy, which covers null, the empty string, numeric
  zero and False; or NaN; or whitespace-only after trimming) and the decision's
  value is non-empty after trimming, the decision's value is staged; else if both are
  non-empty and their trimmed values differ, it is staged; otherwise the field is not
  staged; and a staged field sets \<open>needs_update\<close>.
\<close>

theorem classification_field_policy:
  assumes "F \<in> {''Department'', ''Designation'', ''Salary_Band''}"
  shows "(is_blank lib (dict_get data F PNone) \<and> decision_value lib d F \<noteq> [] \<longrightarrow>
            map_of (fst (stage lib today data d)) F = Some (PStr (decision_value lib d F))) \<and>
         (\<not> is_blank lib (dict_get data F PNone) \<and> decision_value lib d F \<noteq> [] \<and>
            strip (py_str lib (dict_get data F PNone)) \<noteq> decision_value lib d F \<longrightarrow>
            map_of (fst (stage lib today data d)) F = Some (PStr (decision_value lib d F))) \<and>
         (\<not> is_blank lib (dict_get data F PNone) \<and>
            strip (py_str lib (dict_get data F PNone)) = decision_value lib d F \<or>
            decision_value lib d F = [] \<longrightarrow>
            map_of (fst (stage lib today data d)) F = None) \<and>
         (map_of (fst (stage lib today data d)) F \<noteq> None \<longrightarrow> snd (stage lib today data d))"
  using assms by (auto simp: stage_map stage_needs staged_value_def)

text \<open>An override: Designation is Junior, the oracle decides Senior.\<close>

theorem classification_field_policy_witness:
  "''Designation'' \<in> {''Department'', ''Designation'', ''Salary_Band''} \<and>
   \<not> is_blank example_lib (dict_get [''Designation'' \<mapsto> PStr ''Junior''] ''Designation'' PNone) \<and>
   decision_value example_lib [''Designation'' \<mapsto> PStr ''Senior''] ''Designation'' \<noteq> [] \<and>
   strip (py_str example_lib (dict_get [''Designation'' \<mapsto> PStr ''Junior''] ''Designation'' PNone))
     \<noteq> decision_value example_lib [''Designation'' \<mapsto> PStr ''Senior''] ''Designation'' \<and>
   map_of (fst (stage example_lib 738886 [''Designation'' \<mapsto> PStr ''Junior'']
                  [''Designation'' \<mapsto> PStr ''Senior''])) ''Designation'' = Some (PStr ''Senior'') \<and>
   snd (stage example_lib 738886 [''Designation'' \<mapsto> PStr ''Junior''] [''Designation'' \<mapsto> PStr ''Senior''])"
  using classification_field_policy [of "''Designation''" example_lib "[''Designation'' \<mapsto> PStr ''Junior'']"
      "[''Designation'' \<mapsto> PStr ''Senior'']" 738886]
  by (simp add: dict_get_def decision_value_def strip_def is_space_def is_blank_def)

text \<open>
  C1 as stated fails where the current value is falsy without being null: the cell
  holds the number 0 and the oracle answers \<open>"0"\<close>. The current value is not empty in
  the specification's sense, the trimmed values are equal, and yet the value is staged,
  because \<open>not current_dept\<close> holds for 0.
\<close>

theorem classification_field_policy_counterexample:
  "\<not> empty_as_specified example_lib (dict_get [''Department'' \<mapsto> PInt 0] ''Department'' PNone) \<and>
   decision_value example_lib [''Department'' \<mapsto> PStr ''0''] ''Department'' \<noteq> [] \<and>
   strip (py_str example_lib (dict_get [''Department'' \<mapsto> PInt 0] ''Department'' PNone)) =
     decision_value example_lib [''Department'' \<mapsto> PStr ''0''] ''Department'' \<and>
   map_of (fst (stage example_lib 738886 [''Department'' \<mapsto> PInt 0] [''Department'' \<mapsto> PStr ''0'']))
     ''Department'' = Some (PStr ''0'')"
  by (simp add: empty_as_specified_def dict_get_def decision_value_def string_of_int_0
      strip_def is_space_def stage_map staged_value_def is_blank_def)

text \<open>
  C2. When the date of joining parses, the derived experience is
  \<open>round((today - join_date).days / 365.25, 1)\<close>, it is staged as Experience_Years and
  the row is marked for writing, whatever value is stored. When the date of joining is
  missing or does not parse, the derived experience is null, Experience_Years is not
  staged, and the row keeps its stored experience.
\<close>

theorem experience_policy:
  "(dict_get data ''DOJ'' PNone = PStr s \<and> s \<noteq> [] \<and> to_datetime lib s = Some doj_date \<longrightarrow>
      calculated_experience lib today (dict_get data ''DOJ'' PNone)
        = Some (py_round1 (of_int (today - doj_date) / 365.25)) \<and>
      map_of (fst (stage lib today data d)) ''Experience_Years''
        = Some (PFloat (py_round1 (of_int (today - doj_date) / 365.25))) \<and>
      snd (stage lib today data d)) \<and>
   (\<not> truthy (dict_get data ''DOJ'' PNone) \<or> parse_doj lib (dict_get data ''DOJ'' PNone) = None \<longrightarrow>
      calculated_experience lib today (dict_get data ''DOJ'' PNone) = None \<and>
      map_of (fst (stage lib today data d)) ''Experience_Years'' = None \<and>
      data_for_decision lib today data = data)"
proof -
  have "calculated_experience lib today (dict_get data ''DOJ'' PNone) = None"
    if "\<not> truthy (dict_get data ''DOJ'' PNone) \<or> parse_doj lib (dict_get data ''DOJ'' PNone) = None"
    using that by (auto simp: calculated_experience_def)
  moreover have "calculated_experience lib today (dict_get data ''DOJ'' PNone)
        = Some (py_round1 (of_int (today - doj_date) / 365.25))"
    if "dict_get data ''DOJ'' PNone = PStr s \<and> s \<noteq> [] \<and> to_datetime lib s = Some doj_date"
    using that by (simp add: calculated_experience_def parse_doj_def)
  ultimately show ?thesis
    by (auto simp: stage_map stage_needs data_for_decision_None)
qed

text \<open>Joined on 2017-01-01, today is 2024-01-01, 7.0 is already stored: 7.0 is staged again.\<close>

theorem experience_policy_witness:
  "dict_get [''DOJ'' \<mapsto> PStr ''2017-01-01'', ''Experience_Years'' \<mapsto> PFloat 7] ''DOJ'' PNone
     = PStr ''2017-01-01'' \<and>
   ''2017-01-01'' \<noteq> [] \<and> to_datetime example_lib ''2017-01-01'' = Some 736330 \<and>
   map_of (fst (stage example_lib 738886
                  [''DOJ'' \<mapsto> PStr ''2017-01-01'', ''Experience_Years'' \<mapsto> PFloat 7] Map.empty))
     ''Experience_Years'' = Some (PFloat 7) \<and>
   snd (stage example_lib 738886
          [''DOJ'' \<mapsto> PStr ''2017-01-01'', ''Experience_Years'' \<mapsto> PFloat 7] Map.empty)"
proof -
  have h: "dict_get [''DOJ'' \<mapsto> PStr ''2017-01-01'', ''Experience_Years'' \<mapsto> PFloat 7] ''DOJ'' PNone
             = PStr ''2017-01-01'' \<and>
           ''2017-01-01'' \<noteq> [] \<and> to_datetime example_lib ''2017-01-01'' = Some 736330"
    by (simp add: dict_get_def example_lib_def)
  with experience_policy [of "[''DOJ'' \<mapsto> PStr ''2017-01-01'', ''Experience_Years'' \<mapsto> PFloat 7]"
      "''2017-01-01''" example_lib 736330 738886 Map.empty]
  have "map_of (fst (stage example_lib 738886
                       [''DOJ'' \<mapsto> PStr ''2017-01-01'', ''Experience_Years'' \<mapsto> PFloat 7] Map.empty))
          ''Experience_Years'' = Some (PFloat (py_round1 (of_int (738886 - 736330) / 365.25))) \<and>
        snd (stage example_lib 738886
               [''DOJ'' \<mapsto> PStr ''2017-01-01'', ''Experience_Years'' \<mapsto> PFloat 7] Map.empty)"
    by blast
  with h example_round show ?thesis by simp
qed

text \<open>
  C6 (a defect of the code). The claim bounds the attempts of one invocation by the
  initial one and \<open>max_retries\<close> more. With \<open>max_retries = 3\<close> and
  \<open>retry_delay = 2\<close>, against an oracle whose answers are never JSON, the client
  makes 15 calls and sleeps 14 times (28 seconds) before it raises.
\<close>

theorem llm_decide_malformed_calls:
  "llm_decide example_lib malformed_oracle 3 2 Map.empty 0 (0, 0) = (Inl JSONDecodeError, (15, 28))"
  by (simp add: llm_decide.simps malformed_oracle_def strip_fences_Senior example_lib_def)

text \<open>
  C4. When an update set holds, for Department, Designation or Salary_Band, a non-empty
  value (truthy and not whitespace-only) outside the column's enumeration, the row
  update fails and the file is left as it was; on a readable file and a valid row the
  error is the validation error; and the agent counts the row as failed.
\<close>

theorem invalid_dropdown_value_rejected:
  assumes "(c, v) \<in> set upd" and "c \<in> {''Department'', ''Designation'', ''Salary_Band''}"
    and "truthy v" and "strip (py_str (e_lib e) v) \<noteq> []"
    and "map_of DROPDOWNS c = Some allowed" and "\<not> py_in v allowed"
  shows "(\<exists>err. update_employee_row (e_lib e) save_ok now file rid upd reason confidence = (Inl err, file)) \<and>
         (\<forall>df. file = Some df \<and> 0 \<le> rid \<and> rid < int (length (rows df)) \<longrightarrow>
            (\<exists>v' c'. update_employee_row (e_lib e) save_ok now file rid upd reason confidence
                       = (Inl (ValueError (Invalid_value v' c')), file))) \<and>
         write_row e s n upd d = row_failed s n \<and>
         xlsx (write_row e s n upd d) = xlsx s \<and>
         failed (write_row e s n upd d) = failed s + 1"
proof -
  obtain v' c' where bad: "validate (e_lib e) upd = Some (ValueError (Invalid_value v' c'))"
    using validate_bad [OF assms(1) assms(5) assms(3) assms(4) assms(6)] by blast
  have 1: "\<exists>err. update_employee_row (e_lib e) so nw fl r upd rs cf = (Inl err, fl)" for so nw fl r rs cf
    by (simp add: update_employee_row_def bad split: option.splits)
  have 2: "update_employee_row (e_lib e) save_ok now file rid upd reason confidence
             = (Inl (ValueError (Invalid_value v' c')), file)"
    if "file = Some df \<and> 0 \<le> rid \<and> rid < int (length (rows df))" for df
    using that by (auto simp: update_employee_row_def bad)
  have 3: "write_row e s n upd d = row_failed s n"
  proof (cases "py_float (e_lib e) (dict_get d ''Confidence'' (PFloat 0))")
    case (Inl err)
    then show ?thesis by (simp add: write_row_def)
  next
    case (Inr cf)
    obtain err where "update_employee_row (e_lib e) (e_save_ok e n) (e_now e) (xlsx s) (int n) upd
        (py_str (e_lib e) (dict_get d ''Reason'' (PStr []))) cf = (Inl err, xlsx s)"
      using 1 by blast
    with Inr show ?thesis by (simp add: write_row_def)
  qed
  from 1 2 3 show ?thesis by (auto simp: row_failed_def)
qed

text \<open>The oracle invents the department Marketing.\<close>

theorem invalid_dropdown_value_rejected_witness:
  "(''Department'', PStr ''Marketing'')
     \<in> set [(''Experience_Years'', PFloat 7), (''Department'', PStr ''Marketing'')] \<and>
   truthy (PStr ''Marketing'') \<and> strip (py_str (e_lib example_env) (PStr ''Marketing'')) \<noteq> [] \<and>
   map_of DROPDOWNS ''Department'' = Some [''Web'', ''AI'', ''HR'', ''Finance'', ''Operations''] \<and>
   \<not> py_in (PStr ''Marketing'') [''Web'', ''AI'', ''HR'', ''Finance'', ''Operations''] \<and>
   (\<exists>v' c'. update_employee_row (e_lib example_env) True 0 (Some example_df) 0
       [(''Experience_Years'', PFloat 7), (''Department'', PStr ''Marketing'')] ''reason'' (PFloat 0.9)
      = (Inl (ValueError (Invalid_value v' c')), Some example_df))"
proof -
  have h: "(''Department'', PStr ''Marketing'')
             \<in> set [(''Experience_Years'', PFloat 7), (''Department'', PStr ''Marketing'')]"
     "''Department'' \<in> {''Department'', ''Designation'', ''Salary_Band''}"
     "truthy (PStr ''Marketing'')" "strip (py_str (e_lib example_env) (PStr ''Marketing'')) \<noteq> []"
     "map_of DROPDOWNS ''Department'' = Some [''Web'', ''AI'', ''HR'', ''Finance'', ''Operations'']"
     "\<not> py_in (PStr ''Marketing'') [''Web'', ''AI'', ''HR'', ''Finance'', ''Operations'']"
    by (simp_all add: DROPDOWNS_def strip_def is_space_def)
  have l: "0 < length (rows example_df)" by (simp add: example_df_def)
  from invalid_dropdown_value_rejected [OF h, of True 0 "Some example_df" 0 "''reason''" "PFloat 0.9"] l h
  show ?thesis by simp
qed




text \<open>
  C10. The falsy values are None, the empty string, 0, 0.0 and False. A successful
  \<open>update_employee_row\<close> leaves the cell of a staged falsy value as it was, though
  the update set passed validation and the column exists (the four columns that every
  write sets apart). In particular, when the date of joining is today, the agent
  stages Experience_Years = 0.0 and marks the row for writing, and the write leaves the
  stored Experience_Years as it was.
\<close>

theorem falsy_values_not_written:
  "\<not> truthy PNone \<and> \<not> truthy (PStr []) \<and> \<not> truthy (PInt 0) \<and> \<not> truthy (PFloat 0) \<and> \<not> truthy (PBool False) \<and>
   (update_employee_row lib save_ok now (Some df) rid upd reason confidence = (Inr res, Some df') \<and>
    distinct (map fst upd) \<and> (c, v) \<in> set upd \<and> \<not> truthy v \<and> c \<in> set (columns df) \<and>
    c \<notin> set audit_columns \<longrightarrow>
      validate lib upd = None \<and> (rows df' ! nat rid) c = (rows df ! nat rid) c) \<and>
   (dict_get data ''DOJ'' PNone = PStr s \<and> s \<noteq> [] \<and> to_datetime lib s = Some today \<longrightarrow>
      map_of (fst (stage lib today data d)) ''Experience_Years'' = Some (PFloat 0) \<and>
      snd (stage lib today data d) \<and>
      (update_employee_row lib save_ok now (Some df) rid (fst (stage lib today data d)) reason confidence
         = (Inr res, Some df') \<and> ''Experience_Years'' \<in> set (columns df) \<longrightarrow>
       (rows df' ! nat rid) ''Experience_Years'' = (rows df ! nat rid) ''Experience_Years''))"
proof -
  have a: "validate lib upd = None \<and> (rows df' ! nat rid) c = (rows df ! nat rid) c"
    if "update_employee_row lib save_ok now (Some df) rid upd reason confidence = (Inr res, Some df') \<and>
        distinct (map fst upd) \<and> (c, v) \<in> set upd \<and> \<not> truthy v \<and> c \<in> set (columns df) \<and>
        c \<notin> set audit_columns"
    using that update_employee_row_falsy [of lib save_ok now df rid upd reason confidence res df' c v]
      update_employee_row_success [of lib save_ok now df rid upd reason confidence res "Some df'"]
    by blast
  have b: "map_of (fst (stage lib today data d)) ''Experience_Years'' = Some (PFloat 0) \<and>
      snd (stage lib today data d) \<and>
      (update_employee_row lib save_ok now (Some df) rid (fst (stage lib today data d)) reason confidence
         = (Inr res, Some df') \<and> ''Experience_Years'' \<in> set (columns df) \<longrightarrow>
       (rows df' ! nat rid) ''Experience_Years'' = (rows df ! nat rid) ''Experience_Years'')"
    if h: "dict_get data ''DOJ'' PNone = PStr s \<and> s \<noteq> [] \<and> to_datetime lib s = Some today"
  proof -
    have calc: "calculated_experience lib today (dict_get data ''DOJ'' PNone) = Some 0"
      using h by (simp add: calculated_experience_def parse_doj_def py_round1_def)
    then have m: "map_of (fst (stage lib today data d)) ''Experience_Years'' = Some (PFloat 0)"
      and n: "snd (stage lib today data d)"
      by (simp_all add: stage_map stage_needs)
    from m have mem: "(''Experience_Years'', PFloat 0) \<in> set (fst (stage lib today data d))"
      by (rule map_of_SomeD)
    have "(rows df' ! nat rid) ''Experience_Years'' = (rows df ! nat rid) ''Experience_Years''"
      if "update_employee_row lib save_ok now (Some df) rid (fst (stage lib today data d)) reason confidence
         = (Inr res, Some df')" "''Experience_Years'' \<in> set (columns df)"
      using that(1) distinct_stage mem _ that(2)
      by (rule update_employee_row_falsy) (simp_all add: audit_columns_def)
    with m n show ?thesis by blast
  qed
  from a b show ?thesis by simp
qed

text \<open>The employee who joined today: 0.0 is staged, the blank cell stays blank.\<close>

theorem falsy_values_not_written_witness:
  "dict_get example_row_new ''DOJ'' PNone = PStr ''2024-01-01'' \<and>
   to_datetime example_lib ''2024-01-01'' = Some 738886 \<and>
   map_of (fst (stage example_lib 738886 example_row_new example_decision)) ''Experience_Years''
     = Some (PFloat 0) \<and>
   update_employee_row example_lib True 1704067200 (Some example_df_new) 0
      (fst (stage example_lib 738886 example_row_new example_decision)) ''8 yrs exp'' (PFloat 0.9)
     = (Inr (0, fst (stage example_lib 738886 example_row_new example_decision)), Some example_df_new_written) \<and>
   ''Experience_Years'' \<in> set (columns example_df_new) \<and>
   (rows example_df_new_written ! 0) ''Experience_Years'' = Some PNaN \<and>
   (rows example_df_new ! 0) ''Experience_Years'' = Some PNaN"
proof -
  have h: "dict_get example_row_new ''DOJ'' PNone = PStr ''2024-01-01'' \<and> ''2024-01-01'' \<noteq> [] \<and>
      to_datetime example_lib ''2024-01-01'' = Some 738886"
    by (simp add: dict_get_def example_row_new_def example_lib_def)
  have c: "''Experience_Years'' \<in> set (columns example_df_new)"
    by (simp add: example_df_new_def example_columns_def)
  have o: "(rows example_df_new ! 0) ''Experience_Years'' = Some PNaN"
    by (simp add: example_df_new_def example_row_new_def example_row0_def blank_row_def)
  from falsy_values_not_written [of example_lib True 1704067200 example_df_new 0
      "fst (stage example_lib 738886 example_row_new example_decision)" "''8 yrs exp''"
      "PFloat 0.9" "(0, fst (stage example_lib 738886 example_row_new example_decision))"
      example_df_new_written "''Experience_Years''" "PFloat 0" example_row_new "''2024-01-01''" 738886
      example_decision]
    h example_update_new c
  have "map_of (fst (stage example_lib 738886 example_row_new example_decision)) ''Experience_Years''
          = Some (PFloat 0) \<and>
        (rows example_df_new_written ! nat 0) ''Experience_Years'' = (rows example_df_new ! nat 0) ''Experience_Years''"
    by blast
  with h example_update_new c o show ?thesis by simp
qed

text \<open>
  C5, as amended. When the spreadsheet cannot be read, the fetch tool fails on the
  server and answers with an error result; the agent logs it, takes the list of
  employees to be empty, processes no row (no oracle call, no write, all counts 0), prints
  the summary and returns normally. Only a failure of the session itself, before or
  during the fetch, is fatal: it is raised to the caller after the summary, and no row
  is processed.
\<close>

theorem unreadable_store_ends_in_empty_run:
  "(e_session_ok e \<longrightarrow>
      get_all_employees (e_lib e) None = Inl FileError \<and>
      run_agent e None =
        (Returned, (initial_state None)\<lparr>log := [Fetch_error, No_employees, Summary 0 0 0 0]\<rparr>)) \<and>
   (\<not> e_session_ok e \<longrightarrow>
      run_agent e fl =
        (Raised ConnectionError, (initial_state fl)\<lparr>log := [Fatal ConnectionError, Summary 0 0 0 0]\<rparr>))"
  by (simp add: run_agent_def agent_body_def get_all_employees_def initial_state_def print_summary_def)

theorem unreadable_store_ends_in_empty_run_witness:
  "e_session_ok example_env \<and>
   run_agent example_env None =
     (Returned, (initial_state None)\<lparr>log := [Fetch_error, No_employees, Summary 0 0 0 0]\<rparr>) \<and>
   \<not> e_session_ok (example_env\<lparr>e_session_ok := False\<rparr>) \<and>
   run_agent (example_env\<lparr>e_session_ok := False\<rparr>) (Some example_df) =
     (Raised ConnectionError, (initial_state (Some example_df))\<lparr>log := [Fatal ConnectionError, Summary 0 0 0 0]\<rparr>)"
  using unreadable_store_ends_in_empty_run [of example_env "Some example_df"]
    unreadable_store_ends_in_empty_run [of "example_env\<lparr>e_session_ok := False\<rparr>" "Some example_df"]
  by (simp add: example_env_def)

text \<open>
  C5 as stated fails: with a session that works and a spreadsheet that cannot be read,
  the run returns normally, as an empty run.
\<close>

theorem unreadable_store_ends_in_empty_run_counterexample:
  "get_all_employees (e_lib example_env) None = Inl FileError \<and>
   fst (run_agent example_env None) = Returned \<and>
   total (snd (run_agent example_env None)) = 0 \<and>
   log (snd (run_agent example_env None)) = [Fetch_error, No_employees, Summary 0 0 0 0]"
  by (simp add: run_agent_def agent_body_def get_all_employees_def initial_state_def print_summary_def
      example_env_def)



text \<open>
  C3, as amended. For a record whose three classification fields are non-blank and
  equal, after trimming, to the decision's values, and whose derived experience is null
  (the date of joining is missing or does not parse): nothing is staged,
  \<open>needs_update\<close> is false, the row is counted as skipped and the file is not
  written.
\<close>

theorem stable_row_is_skipped:
  assumes "llm_decide (e_lib e) (e_oracle e) (e_max_retries e) (e_retry_delay e)
             (data_for_decision (e_lib e) (e_today e) (emp_data item)) 0 (api_calls s, slept s)
           = (Inr (Dict d), nz)"
    and "\<forall>F \<in> {''Department'', ''Designation'', ''Salary_Band''}.
           \<not> is_blank (e_lib e) (dict_get (emp_data item) F PNone) \<and>
           strip (py_str (e_lib e) (dict_get (emp_data item) F PNone)) = decision_value (e_lib e) d F"
    and "calculated_experience (e_lib e) (e_today e) (dict_get (emp_data item) ''DOJ'' PNone) = None"
  shows "stage (e_lib e) (e_today e) (emp_data item) d = ([], False) \<and>
         skipped (process_row e s item) = skipped s + 1 \<and>
         success (process_row e s item) = success s \<and>
         failed (process_row e s item) = failed s \<and>
         xlsx (process_row e s item) = xlsx s \<and>
         log (process_row e s item) = log s @ [Row_skipped (row_id item)]"
proof -
  have "staged_value (e_lib e) (emp_data item) d F = None"
    if "F \<in> {''Department'', ''Designation'', ''Salary_Band''}" for F
    using assms(2) that by (auto simp: staged_value_def)
  then have st: "stage (e_lib e) (e_today e) (emp_data item) d = ([], False)"
    using assms(3) by (intro stage_nothing) simp_all
  show ?thesis
    by (simp add: process_row_def Let_def assms(1) st)
qed

text \<open>Row 1 of the example: classified as the oracle decides, no date of joining.\<close>

theorem stable_row_is_skipped_witness:
  "llm_decide (e_lib example_env) (e_oracle example_env) (e_max_retries example_env)
     (e_retry_delay example_env)
     (data_for_decision (e_lib example_env) (e_today example_env) (emp_data (example_item 1))) 0
     (api_calls (initial_state (Some example_df)), slept (initial_state (Some example_df)))
     = (Inr (Dict example_decision), (1, 0)) \<and>
   \<not> is_blank (e_lib example_env) (dict_get (emp_data (example_item 1)) ''Department'' PNone) \<and>
   strip (py_str (e_lib example_env) (dict_get (emp_data (example_item 1)) ''Department'' PNone))
     = decision_value (e_lib example_env) example_decision ''Department'' \<and>
   calculated_experience (e_lib example_env) (e_today example_env)
     (dict_get (emp_data (example_item 1)) ''DOJ'' PNone) = None \<and>
   skipped (process_row example_env (initial_state (Some example_df)) (example_item 1)) = 1 \<and>
   success (process_row example_env (initial_state (Some example_df)) (example_item 1)) = 0 \<and>
   xlsx (process_row example_env (initial_state (Some example_df)) (example_item 1)) = Some example_df"
proof -
  have l: "llm_decide (e_lib example_env) (e_oracle example_env) (e_max_retries example_env)
     (e_retry_delay example_env)
     (data_for_decision (e_lib example_env) (e_today example_env) (emp_data (example_item 1))) 0
     (api_calls (initial_state (Some example_df)), slept (initial_state (Some example_df)))
     = (Inr (Dict example_decision), (1, 0))"
    unfolding example_llm by (simp add: initial_state_def)
  have f: "\<forall>F \<in> {''Department'', ''Designation'', ''Salary_Band''}.
           \<not> is_blank (e_lib example_env) (dict_get (emp_data (example_item 1)) F PNone) \<and>
           strip (py_str (e_lib example_env) (dict_get (emp_data (example_item 1)) F PNone))
             = decision_value (e_lib example_env) example_decision F"
    by (simp add: example_env_fields example_eval)
  have c: "calculated_experience (e_lib example_env) (e_today example_env)
     (dict_get (emp_data (example_item 1)) ''DOJ'' PNone) = None"
    by (simp add: example_env_fields example_eval)
  from stable_row_is_skipped [OF l f c] l f c show ?thesis
    by (simp add: initial_state_def)
qed

text \<open>
  C3 as stated fails for a derived experience that is unchanged: row 2 of the example
  is classified as the oracle decides and stores the experience 7.0 that its date of
  joining gives again; the experience is staged all the same, the row is written and
  counted as a success, and its audit cells change.
\<close>

theorem stable_row_is_skipped_counterexample:
  "\<not> is_blank example_lib (dict_get (emp_data (example_item 2)) ''Department'' PNone) \<and>
   strip (py_str example_lib (dict_get (emp_data (example_item 2)) ''Department'' PNone))
     = decision_value example_lib example_decision ''Department'' \<and>
   \<not> is_blank example_lib (dict_get (emp_data (example_item 2)) ''Designation'' PNone) \<and>
   strip (py_str example_lib (dict_get (emp_data (example_item 2)) ''Designation'' PNone))
     = decision_value example_lib example_decision ''Designation'' \<and>
   \<not> is_blank example_lib (dict_get (emp_data (example_item 2)) ''Salary_Band'' PNone) \<and>
   strip (py_str example_lib (dict_get (emp_data (example_item 2)) ''Salary_Band'' PNone))
     = decision_value example_lib example_decision ''Salary_Band'' \<and>
   calculated_experience example_lib 738886 (dict_get (emp_data (example_item 2)) ''DOJ'' PNone) = Some 7 \<and>
   dict_get (emp_data (example_item 2)) ''Experience_Years'' PNone = PFloat 7 \<and>
   stage example_lib 738886 (emp_data (example_item 2)) example_decision
     = ([(''Experience_Years'', PFloat 7)], True) \<and>
   get_all_employees (e_lib example_env) (Some example_df)
     = Inr [example_item 0, example_item 1, example_item 2] \<and>
   run_agent example_env (Some example_df) =
     (Returned, \<lparr>xlsx = Some example_df_final, api_calls = 3, slept = 0, total = 3, success = 2,
                 failed = 0, skipped = 1,
                 log = [Row_updated 0, Row_skipped 1, Row_updated 2, Summary 3 2 0 1]\<rparr>) \<and>
   (rows example_df ! 2) ''Is_Processed'' = Some (PStr ''No'') \<and>
   (rows example_df_final ! 2) ''Is_Processed'' = Some (PStr ''Yes'')"
proof -
  have "calculated_experience example_lib 738886 (dict_get (emp_data (example_item 2)) ''DOJ'' PNone) = Some 7"
    using example_round by (simp add: example_eval)
  moreover have "\<not> is_blank example_lib (dict_get (emp_data (example_item 2)) ''Department'' PNone) \<and>
   strip (py_str example_lib (dict_get (emp_data (example_item 2)) ''Department'' PNone))
     = decision_value example_lib example_decision ''Department'' \<and>
   \<not> is_blank example_lib (dict_get (emp_data (example_item 2)) ''Designation'' PNone) \<and>
   strip (py_str example_lib (dict_get (emp_data (example_item 2)) ''Designation'' PNone))
     = decision_value example_lib example_decision ''Designation'' \<and>
   \<not> is_blank example_lib (dict_get (emp_data (example_item 2)) ''Salary_Band'' PNone) \<and>
   strip (py_str example_lib (dict_get (emp_data (example_item 2)) ''Salary_Band'' PNone))
     = decision_value example_lib example_decision ''Salary_Band'' \<and>
   dict_get (emp_data (example_item 2)) ''Experience_Years'' PNone = PFloat 7"
    by (simp add: example_eval)
  ultimately show ?thesis
    using example_stage2 example_items example_run example_final_rows by simp
qed

text \<open>
  C8, as amended. For a record of a sheet that has the three classification columns:
  when the first run writes the row successfully, a second run with the same today and
  the same decision stages no classification field and stages Experience_Years again
  with the same value (or again not at all); Is_Processed is Yes after the first run,
  and is Yes after the second run's write, whether that write succeeds or fails.
\<close>

theorem second_run_stages_no_classification:
  assumes "rid < length (rows df)"
    and "{''Department'', ''Designation'', ''Salary_Band''} \<subseteq> set (columns df)"
    and "data = map_option (convert_to_json_serializable lib) \<circ> (rows df ! rid)"
    and "update_employee_row lib save_ok now (Some df) (int rid) (fst (stage lib today data d))
           reason confidence = (Inr res, Some df')"
    and "data' = map_option (convert_to_json_serializable lib) \<circ> (rows df' ! rid)"
  shows "(\<forall>F \<in> {''Department'', ''Designation'', ''Salary_Band''}.
            map_of (fst (stage lib today data' d)) F = None) \<and>
         map_of (fst (stage lib today data' d)) ''Experience_Years''
           = map_of (fst (stage lib today data d)) ''Experience_Years'' \<and>
         (rows df' ! rid) ''Is_Processed'' = Some (PStr ''Yes'') \<and>
         (\<forall>save_ok2 now2 reason2 confidence2 r2 fl2.
            update_employee_row lib save_ok2 now2 (Some df') (int rid) (fst (stage lib today data' d))
              reason2 confidence2 = (r2, fl2) \<longrightarrow>
            (\<exists>df''. fl2 = Some df'' \<and> (rows df'' ! rid) ''Is_Processed'' = Some (PStr ''Yes'')))"
proof -
  have fields: "staged_value lib data' d F = None"
    if "F \<in> {''Department'', ''Designation'', ''Salary_Band''}" for F
    using assms(1) _ that assms(3,4,5) by (rule second_run_field) (use assms(2) that in blast)
  then have 1: "\<forall>F \<in> {''Department'', ''Designation'', ''Salary_Band''}.
            map_of (fst (stage lib today data' d)) F = None"
    by (auto simp: stage_map)
  have "\<forall>v. (''DOJ'', v) \<in> set (fst (stage lib today data d)) \<longrightarrow> \<not> truthy v"
    using stage_keys [of "''DOJ''" _ lib today data d] by auto
  then have "(rows df' ! nat (int rid)) ''DOJ'' = (rows df ! nat (int rid)) ''DOJ''"
    using update_employee_row_untouched [OF assms(4), of "''DOJ''"]
    by (simp add: required_columns_def audit_columns_def)
  then have "dict_get data' ''DOJ'' PNone = dict_get data ''DOJ'' PNone"
    by (simp add: assms(3,5) fetched_get)
  then have 2: "map_of (fst (stage lib today data' d)) ''Experience_Years''
           = map_of (fst (stage lib today data d)) ''Experience_Years''"
    by (simp add: stage_map)
  have 3: "(rows df' ! rid) ''Is_Processed'' = Some (PStr ''Yes'')"
    using update_employee_row_processed [OF assms(4)] by simp
  have 4: "\<exists>df''. fl2 = Some df'' \<and> (rows df'' ! rid) ''Is_Processed'' = Some (PStr ''Yes'')"
    if u: "update_employee_row lib save_ok2 now2 (Some df') (int rid) (fst (stage lib today data' d))
              reason2 confidence2 = (r2, fl2)"
    for save_ok2 now2 reason2 confidence2 r2 fl2
  proof (cases r2)
    case (Inl err)
    with u have "fl2 = Some df'" by (auto dest: update_employee_row_error)
    with 3 show ?thesis by simp
  next
    case (Inr res2)
    with u obtain df'' where f: "fl2 = Some df''"
      by (auto simp: update_employee_row_def split: if_splits option.splits)
    with u Inr have "(rows df'' ! nat (int rid)) ''Is_Processed'' = Some (PStr ''Yes'')"
      by (intro update_employee_row_processed) auto
    with f show ?thesis by simp
  qed
  from 1 2 3 4 show ?thesis by blast
qed

text \<open>Row 0 of the example, written by the first run and fetched again.\<close>

theorem second_run_stages_no_classification_witness:
  "0 < length (rows example_df) \<and>
   {''Department'', ''Designation'', ''Salary_Band''} \<subseteq> set (columns example_df) \<and>
   emp_data (example_item 0) = map_option (convert_to_json_serializable example_lib) \<circ> (rows example_df ! 0) \<and>
   update_employee_row example_lib True 1704067200 (Some example_df) (int 0)
     (fst (stage example_lib 738886 (emp_data (example_item 0)) example_decision))
     ''8 yrs exp'' (PFloat 0.9) = (Inr (0, example_updates), Some example_df_written) \<and>
   map_of (fst (stage example_lib 738886 (emp_data (example_item 0)) example_decision)) ''Department''
     = Some (PStr ''Web'') \<and>
   map_of (fst (stage example_lib 738886
      (map_option (convert_to_json_serializable example_lib) \<circ> (rows example_df_written ! 0))
      example_decision)) ''Department'' = None \<and>
   map_of (fst (stage example_lib 738886
      (map_option (convert_to_json_serializable example_lib) \<circ> (rows example_df_written ! 0))
      example_decision)) ''Designation'' = None \<and>
   map_of (fst (stage example_lib 738886
      (map_option (convert_to_json_serializable example_lib) \<circ> (rows example_df_written ! 0))
      example_decision)) ''Salary_Band'' = None \<and>
   map_of (fst (stage example_lib 738886
      (map_option (convert_to_json_serializable example_lib) \<circ> (rows example_df_written ! 0))
      example_decision)) ''Experience_Years'' = Some (PFloat 7) \<and>
   (rows example_df_written ! 0) ''Is_Processed'' = Some (PStr ''Yes'')"
proof -
  have h1: "0 < length (rows example_df)" by (simp add: example_df_def)
  have h2: "{''Department'', ''Designation'', ''Salary_Band''} \<subseteq> set (columns example_df)"
    by (simp add: example_df_def example_columns_def)
  have h3: "emp_data (example_item 0)
      = map_option (convert_to_json_serializable example_lib) \<circ> (rows example_df ! 0)"
    by (simp add: example_item_def)
  have h4: "update_employee_row example_lib True 1704067200 (Some example_df) (int 0)
     (fst (stage example_lib 738886 (emp_data (example_item 0)) example_decision))
     ''8 yrs exp'' (PFloat 0.9) = (Inr (0, example_updates), Some example_df_written)"
    unfolding example_stage0 fst_conv of_nat_0 by (rule example_update)
  have s: "map_of (fst (stage example_lib 738886 (emp_data (example_item 0)) example_decision)) ''Department''
      = Some (PStr ''Web'')"
    "map_of (fst (stage example_lib 738886 (emp_data (example_item 0)) example_decision)) ''Experience_Years''
      = Some (PFloat 7)"
    unfolding example_stage0 by (simp_all add: example_updates_def)
  from second_run_stages_no_classification [OF h1 h2 h3 h4 refl] s(2)
  have "map_of (fst (stage example_lib 738886
      (map_option (convert_to_json_serializable example_lib) \<circ> (rows example_df_written ! 0))
      example_decision)) ''Department'' = None \<and>
   map_of (fst (stage example_lib 738886
      (map_option (convert_to_json_serializable example_lib) \<circ> (rows example_df_written ! 0))
      example_decision)) ''Designation'' = None \<and>
   map_of (fst (stage example_lib 738886
      (map_option (convert_to_json_serializable example_lib) \<circ> (rows example_df_written ! 0))
      example_decision)) ''Salary_Band'' = None \<and>
   map_of (fst (stage example_lib 738886
      (map_option (convert_to_json_serializable example_lib) \<circ> (rows example_df_written ! 0))
      example_decision)) ''Experience_Years'' = Some (PFloat 7) \<and>
   (rows example_df_written ! 0) ''Is_Processed'' = Some (PStr ''Yes'')"
    by simp
  with h1 h2 h3 h4 s(1) show ?thesis by blast
qed

text \<open>
  C8 as stated fails for a record that the first run does not write: row 1 of the
  example is skipped, and its Is_Processed is still No after the run.
\<close>

theorem second_run_stages_no_classification_counterexample:
  "get_all_employees (e_lib example_env) (Some example_df)
     = Inr [example_item 0, example_item 1, example_item 2] \<and>
   (rows example_df ! 1) ''Is_Processed'' = Some (PStr ''No'') \<and>
   run_agent example_env (Some example_df) =
     (Returned, \<lparr>xlsx = Some example_df_final, api_calls = 3, slept = 0, total = 3, success = 2,
                 failed = 0, skipped = 1,
                 log = [Row_updated 0, Row_skipped 1, Row_updated 2, Summary 3 2 0 1]\<rparr>) \<and>
   (rows example_df_final ! 1) ''Is_Processed'' = Some (PStr ''No'')"
  using example_items example_run example_final_rows
  by (simp add: example_row1_def)

end
